theory Spec2Isabelle
  imports Main "HOL-Library.Word"
begin

section \<open>The output aggregator: \<open>server/lib/feishu-message-writer.js\<close>\<close>

subsection \<open>Strings\<close>

text \<open>
  A JavaScript string is a sequence of UTF-16 code units; \<open>length\<close>, \<open>substring\<close> and
  \<open>lastIndexOf\<close> all count code units. The model writes it as a list of 16-bit words,
  one element for one code unit. \<open>s.substring(0, i)\<close> is \<open>take i s\<close>, \<open>s.substring(i)\<close>
  is \<open>drop i s\<close>, \<open>a + b\<close> is \<open>a @ b\<close>. \<open>ascii\<close> writes an ASCII literal of the source
  as such a string.
\<close>

type_synonym jsstring = "16 word list"

definition ascii :: "string \<Rightarrow> jsstring" where
  "ascii s = map (\<lambda>c. of_nat (of_char c)) s"

text \<open>
  \<open>s.lastIndexOf(c, fromIndex)\<close> for a one-character \<open>c\<close>: the greatest index
  \<open>k \<le> fromIndex\<close> with \<open>s[k] = c\<close>, or \<open>-1\<close> when there is none. A \<open>fromIndex\<close> beyond
  the end of the string is clamped, which the guard \<open>i < length s\<close> does here.
\<close>

fun lastIndexOf :: "jsstring \<Rightarrow> 16 word \<Rightarrow> nat \<Rightarrow> int" where
  "lastIndexOf s c 0 = (if 0 < length s \<and> s ! 0 = c then 0 else - 1)"
| "lastIndexOf s c (Suc i) =
     (if Suc i < length s \<and> s ! Suc i = c then int (Suc i) else lastIndexOf s c i)"

subsection \<open>\<open>splitMessage\<close>\<close>

text \<open>
  The source compares an index with \<open>maxLength * 0.8\<close>, a double. For an integer
  \<open>maxLength\<close> below \<open>2^50\<close> and an integer index \<open>k\<close>, \<open>k > maxLength * 0.8\<close> holds
  exactly when \<open>5 * k > 4 * maxLength\<close>. The double nearest to \<open>0.8\<close> lies above \<open>4/5\<close>
  by a relative \<open>5.6e-17\<close>, so the rounded product is within \<open>0.2\<close> of
  \<open>4 * maxLength / 5\<close>. When that quotient is an integer it is itself a double below the
  exact product, and the rounded product is not below it; otherwise it is at least \<open>0.2\<close>
  away from every integer. Either way the same integers \<open>k\<close> lie above both.
\<close>

definition above_80_percent :: "int \<Rightarrow> nat \<Rightarrow> bool" where
  "above_80_percent k maxLength \<longleftrightarrow> 5 * k > 4 * int maxLength"

definition newline :: "16 word" where
  "newline = 0x0A"

definition space :: "16 word" where
  "space = 0x20"

text \<open>
  The \<open>while (remaining.length > 0)\<close> loop of \<open>splitMessage\<close>, with the local variables
  \<open>remaining\<close> and \<open>chunks\<close> as arguments. With \<open>maxLength = 0\<close> and a non-empty text
  the source pushes empty chunks forever; \<open>None\<close> stands for not returning.
\<close>

partial_function (option) splitLoop ::
  "nat \<Rightarrow> jsstring \<Rightarrow> jsstring list \<Rightarrow> jsstring list option" where
  "splitLoop maxLength remaining chunks =
     (if length remaining > 0 then
        if length remaining \<le> maxLength then Some (chunks @ [remaining])
        else
          let nearbyNewline = lastIndexOf remaining newline maxLength;
              nearbySpace = lastIndexOf remaining space maxLength;
              splitIndex =
                (if above_80_percent nearbyNewline maxLength then nat (nearbyNewline + 1)
                 else if above_80_percent nearbySpace maxLength then nat (nearbySpace + 1)
                 else maxLength)
          in splitLoop maxLength (drop splitIndex remaining) (chunks @ [take splitIndex remaining])
      else Some chunks)"

declare splitLoop.simps [code]

definition splitMessage :: "jsstring \<Rightarrow> nat \<Rightarrow> jsstring list option" where
  "splitMessage text maxLength =
     (if length text \<le> maxLength then Some [text] else splitLoop maxLength text [])"

definition defaultMaxLength :: nat where
  "defaultMaxLength = 5000"

text \<open>The \<open>splitIndex\<close> that one round of the loop computes, named for the proofs.\<close>

definition splitIndexOf :: "nat \<Rightarrow> jsstring \<Rightarrow> nat" where
  "splitIndexOf maxLength remaining =
     (let nearbyNewline = lastIndexOf remaining newline maxLength;
          nearbySpace = lastIndexOf remaining space maxLength
      in if above_80_percent nearbyNewline maxLength then nat (nearbyNewline + 1)
         else if above_80_percent nearbySpace maxLength then nat (nearbySpace + 1)
         else maxLength)"

subsection \<open>JavaScript values reaching the writer\<close>

text \<open>
  \<open>send\<close> receives either a string, which it hands to \<open>JSON.parse\<close>, or a value it uses
  as it is. The values are plain data, as \<open>JSON.parse\<close> builds them: no accessors, proxies
  or symbols. A number is held as the text \<open>String(n)\<close> gives for it, which is all the
  writer ever asks of a number (its truthiness and its text).
\<close>

datatype jsval =
    JUndefined
  | JNull
  | JBool bool
  | JNum jsstring
  | JStr jsstring
  | JArr "jsval list"
  | JObj "(jsstring \<times> jsval) list"

text \<open>
  What a \<open>throw\<close> carries: an \<open>Error\<close> object of the runtime (a \<open>TypeError\<close>, the
  \<open>SyntaxError\<close> of \<open>JSON.parse\<close>, an \<open>Error\<close> with its message), or any other value.
\<close>

datatype thrown = TypeError | SyntaxError | Error jsstring | ThrownValue jsval

fun truthy :: "jsval \<Rightarrow> bool" where
  "truthy JUndefined = False"
| "truthy JNull = False"
| "truthy (JBool b) = b"
| "truthy (JNum n) = (n \<noteq> ascii ''0'' \<and> n \<noteq> ascii ''NaN'')"
| "truthy (JStr s) = (s \<noteq> [])"
| "truthy (JArr xs) = True"
| "truthy (JObj kvs) = True"

text \<open>
  \<open>v.name\<close> for the property names the writer reads (\<open>type\<close>, \<open>data\<close>, \<open>error\<close>,
  \<open>sessionId\<close>, \<open>message\<close>, \<open>content\<close>, \<open>text\<close>, \<open>delta\<close>): a \<open>TypeError\<close> on
  \<open>undefined\<close> and \<open>null\<close>, the own property of an object, and \<open>undefined\<close> everywhere
  else, since no prototype of a primitive or an array defines one of these names.
\<close>

fun getProp :: "jsval \<Rightarrow> jsstring \<Rightarrow> thrown + jsval" where
  "getProp JUndefined name = Inl TypeError"
| "getProp JNull name = Inl TypeError"
| "getProp (JObj kvs) name = Inr (case map_of kvs name of Some v \<Rightarrow> v | None \<Rightarrow> JUndefined)"
| "getProp v name = Inr JUndefined"

text \<open>\<open>v?.name\<close>: \<open>undefined\<close> when \<open>v\<close> is \<open>undefined\<close> or \<open>null\<close>.\<close>

fun getPropOpt :: "jsval \<Rightarrow> jsstring \<Rightarrow> thrown + jsval" where
  "getPropOpt JUndefined name = Inr JUndefined"
| "getPropOpt JNull name = Inr JUndefined"
| "getPropOpt v name = getProp v name"

text \<open>
  The conversion to a string of \<open>buffer += text\<close> and of a template literal. An array
  joins its elements with commas, \<open>undefined\<close> and \<open>null\<close> elements giving the empty
  string. An object gives \<open>[object Object]\<close>, unless it has an own \<open>toString\<close> property:
  in plain data that is not a function, \<open>valueOf\<close> does not yield a primitive either,
  and the conversion throws a \<open>TypeError\<close>.
\<close>

fun toStr :: "jsval \<Rightarrow> thrown + jsstring"
  and joinElems :: "jsval list \<Rightarrow> thrown + jsstring"
  and elemStr :: "jsval \<Rightarrow> thrown + jsstring" where
  "toStr JUndefined = Inr (ascii ''undefined'')"
| "toStr JNull = Inr (ascii ''null'')"
| "toStr (JBool b) = Inr (if b then ascii ''true'' else ascii ''false'')"
| "toStr (JNum n) = Inr n"
| "toStr (JStr s) = Inr s"
| "toStr (JArr xs) = joinElems xs"
| "toStr (JObj kvs) =
     (if ascii ''toString'' \<in> fst ` set kvs then Inl TypeError
      else Inr (ascii ''[object Object]''))"
| "joinElems [] = Inr []"
| "joinElems (x # xs) =
     (case elemStr x of
        Inl e \<Rightarrow> Inl e
      | Inr s \<Rightarrow>
          if xs = [] then Inr s
          else (case joinElems xs of Inl e \<Rightarrow> Inl e | Inr r \<Rightarrow> Inr (s @ ascii '','' @ r)))"
| "elemStr JUndefined = Inr []"
| "elemStr JNull = Inr []"
| "elemStr (JBool b) = toStr (JBool b)"
| "elemStr (JNum n) = toStr (JNum n)"
| "elemStr (JStr s) = toStr (JStr s)"
| "elemStr (JArr xs) = toStr (JArr xs)"
| "elemStr (JObj kvs) = toStr (JObj kvs)"

text \<open>
  \<open>for (const block of content)\<close>: an array gives its elements, a string its characters
  (each a string, on which \<open>block.type\<close> is \<open>undefined\<close>); any other truthy value
  is not iterable and the loop throws a \<open>TypeError\<close>.
\<close>

fun iterate :: "jsval \<Rightarrow> thrown + jsval list" where
  "iterate (JArr xs) = Inr xs"
| "iterate (JStr s) = Inr (map (\<lambda>c. JStr [c]) s)"
| "iterate v = Inl TypeError"

subsection \<open>The writer's state\<close>

text \<open>
  The fields of \<open>FeishuMessageWriter\<close> that change; \<open>feishuClient\<close> and \<open>chatId\<close> are
  fixed at construction. \<open>flushTimer\<close> is \<open>Some d\<close> while a timeout of \<open>d\<close> ms is armed.
\<close>

record writer =
  sessionIdOf :: jsval
  buffer :: jsstring
  lastFlushTime :: int
  isCompleted :: bool
  flushTimer :: "int option"

definition flushInterval :: int where
  "flushInterval = 3000"

definition flushThreshold :: nat where
  "flushThreshold = 2000"


subsection \<open>The handlers of \<open>send\<close>\<close>

text \<open>
  A handler run ends normally or by a \<open>throw\<close>; either way the writer keeps the
  mutations made so far. The result is the thrown value, if any, and the writer.
\<close>

type_synonym completion = "thrown option \<times> writer"

definition orThrow :: "thrown + 'a \<Rightarrow> writer \<Rightarrow> ('a \<Rightarrow> completion) \<Rightarrow> completion" where
  "orThrow r w k = (case r of Inl e \<Rightarrow> (Some e, w) | Inr v \<Rightarrow> k v)"

definition setSessionId :: "writer \<Rightarrow> jsval \<Rightarrow> writer" where
  "setSessionId w sid = w\<lparr>sessionIdOf := sid\<rparr>"

definition appendText :: "writer \<Rightarrow> jsval \<Rightarrow> completion" where
  "appendText w text = orThrow (toStr text) w (\<lambda>s. (None, w\<lparr>buffer := buffer w @ s\<rparr>))"

definition handleSessionCreated :: "writer \<Rightarrow> jsval \<Rightarrow> completion" where
  "handleSessionCreated w message =
     orThrow (getProp message (ascii ''sessionId'')) w
       (\<lambda>sid. (None, if truthy sid then setSessionId w sid else w))"

text \<open>The \<open>for (const block of data.message.content)\<close> loop.\<close>

fun appendBlocks :: "writer \<Rightarrow> jsval list \<Rightarrow> completion" where
  "appendBlocks w [] = (None, w)"
| "appendBlocks w (block # rest) =
     (case getProp block (ascii ''type'') of
        Inl e \<Rightarrow> (Some e, w)
      | Inr t \<Rightarrow>
          if t = JStr (ascii ''text'') then
            (case getProp block (ascii ''text'') of
               Inl e \<Rightarrow> (Some e, w)
             | Inr x \<Rightarrow>
                 if truthy x then
                   (case appendText w x of
                      (Some e, w') \<Rightarrow> (Some e, w')
                    | (None, w') \<Rightarrow> appendBlocks w' rest)
                 else appendBlocks w rest)
          else appendBlocks w rest)"

definition handleClaudeResponse :: "writer \<Rightarrow> jsval \<Rightarrow> completion" where
  "handleClaudeResponse w data =
     (if \<not> truthy data then (None, w)
      else orThrow (getProp data (ascii ''type'')) w (\<lambda>t.
        if t = JStr (ascii ''assistant'') \<or> t = JStr (ascii ''assistant_message'') then
          orThrow (getProp data (ascii ''message'')) w (\<lambda>m.
          orThrow (getPropOpt m (ascii ''content'')) w (\<lambda>content.
            if truthy content then orThrow (iterate content) w (appendBlocks w)
            else orThrow (getProp data (ascii ''text'')) w (\<lambda>x.
              if truthy x then appendText w x else (None, w))))
        else if t = JStr (ascii ''content_block_delta'') \<or> t = JStr (ascii ''text_delta'') then
          orThrow (getProp data (ascii ''delta'')) w (\<lambda>d.
          orThrow (getPropOpt d (ascii ''text'')) w (\<lambda>dt.
            if truthy dt then appendText w dt
            else orThrow (getProp data (ascii ''text'')) w (\<lambda>x.
              if truthy x then appendText w x else (None, w))))
        else if t = JStr (ascii ''result'') then (None, w\<lparr>isCompleted := True\<rparr>)
        else (None, w)))"

fun isString :: "jsval \<Rightarrow> bool" where
  "isString (JStr s) = True"
| "isString v = False"

definition handleClaudeOutput :: "writer \<Rightarrow> jsval \<Rightarrow> completion" where
  "handleClaudeOutput w data =
     (if truthy data \<and> isString data then appendText w data else (None, w))"

text \<open>
  \<open>handleError\<close> appends \<open>`\n\<dots> Error: ${error}\n`\<close>; the warning sign of the source
  is the two code units \<open>U+26A0 U+FE0F\<close>.
\<close>

definition handleError :: "writer \<Rightarrow> jsval \<Rightarrow> completion" where
  "handleError w error =
     orThrow (toStr error) w (\<lambda>s.
       appendText w (JStr ([newline, 0x26A0, 0xFE0F] @ ascii '' Error: '' @ s @ [newline])))"

subsection \<open>\<open>flush\<close>\<close>

text \<open>
  \<open>flush\<close> is an \<open>async\<close> function. Its run up to the first \<open>await\<close> is \<open>flushStart\<close>: the
  empty-buffer return, the timer reset, the buffer swap and the split. What is left to do
  after that is a \<open>flush_task\<close>: the captured text and its chunks. \<open>None\<close> is
  \<open>splitMessage\<close> not returning.
\<close>

datatype flush_task = FlushTask jsstring "jsstring list"

definition flushStart :: "writer \<Rightarrow> int \<Rightarrow> (writer \<times> flush_task option) option" where
  "flushStart w now =
     (if length (buffer w) = 0 then Some (w, None)
      else
        let textToSend = buffer w;
            w' = w\<lparr>flushTimer := None, buffer := [], lastFlushTime := now\<rparr>
        in case splitMessage textToSend defaultMaxLength of
             None \<Rightarrow> None
           | Some chunks \<Rightarrow> Some (w', Some (FlushTask textToSend chunks)))"

text \<open>
  \<open>flushIfNeeded\<close> calls \<open>flush()\<close> without awaiting it, so only \<open>flushStart\<close> runs inside
  the caller; the rest of the flush is handed back as a task. The two \<open>Date.now()\<close>
  reads of one synchronous run are given the same value \<open>now\<close>.
\<close>

definition flushIfNeeded :: "writer \<Rightarrow> int \<Rightarrow> (writer \<times> flush_task option) option" where
  "flushIfNeeded w now =
     (let timeSinceLastFlush = now - lastFlushTime w;
          shouldFlushByTime = (timeSinceLastFlush \<ge> flushInterval);
          shouldFlushBySize = (length (buffer w) \<ge> flushThreshold)
      in if shouldFlushByTime \<or> shouldFlushBySize then flushStart w now
         else if flushTimer w = None
           then Some (w\<lparr>flushTimer := Some (flushInterval - timeSinceLastFlush)\<rparr>, None)
           else Some (w, None))"

subsection \<open>\<open>send\<close>\<close>

text \<open>
  The \<open>try\<close> block of \<open>send\<close>. \<open>JSON.parse\<close> belongs to the runtime and is a parameter:
  \<open>None\<close> is its \<open>SyntaxError\<close>. The result is \<open>None\<close> when the run does not return, and
  otherwise the thrown value, if any, the writer, and the flush that was started.
\<close>

definition dispatch :: "writer \<Rightarrow> jsval \<Rightarrow> completion" where
  "dispatch w message =
     orThrow (getProp message (ascii ''type'')) w (\<lambda>t.
       if t = JStr (ascii ''session-created'') then handleSessionCreated w message
       else if t = JStr (ascii ''claude-response'') then
         orThrow (getProp message (ascii ''data'')) w (handleClaudeResponse w)
       else if t = JStr (ascii ''claude-output'') then
         orThrow (getProp message (ascii ''data'')) w (handleClaudeOutput w)
       else if t = JStr (ascii ''claude-error'') then
         orThrow (getProp message (ascii ''error'')) w (handleError w)
       else (None, w))"

text \<open>\<open>typeof data === 'string' ? JSON.parse(data) : data\<close>\<close>

definition parsePayload :: "(jsstring \<Rightarrow> jsval option) \<Rightarrow> jsval \<Rightarrow> thrown + jsval" where
  "parsePayload parse data =
     (case data of
        JStr s \<Rightarrow> (case parse s of None \<Rightarrow> Inl SyntaxError | Some v \<Rightarrow> Inr v)
      | v \<Rightarrow> Inr v)"

definition sendTry ::
  "(jsstring \<Rightarrow> jsval option) \<Rightarrow> jsval \<Rightarrow> writer \<Rightarrow> int
     \<Rightarrow> (thrown option \<times> writer \<times> flush_task option) option" where
  "sendTry parse data w now =
     (case parsePayload parse data of
        Inl e \<Rightarrow> Some (Some e, w, None)
      | Inr message \<Rightarrow>
          (case dispatch w message of
             (Some e, w') \<Rightarrow> Some (Some e, w', None)
           | (None, w') \<Rightarrow>
               (case flushIfNeeded w' now of
                  None \<Rightarrow> None
                | Some (w'', task) \<Rightarrow> Some (None, w'', task))))"

text \<open>
  \<open>error.message\<close>, which both \<open>catch\<close> blocks of the writer and the one of
  \<open>sendTextMessage\<close> read for their log line: it throws in its turn when the caught value
  is \<open>undefined\<close> or \<open>null\<close>.
\<close>

fun readMessage :: "thrown \<Rightarrow> thrown option" where
  "readMessage (ThrownValue v) = (case getProp v (ascii ''message'') of Inl e \<Rightarrow> Some e | Inr m \<Rightarrow> None)"
| "readMessage e = None"

text \<open>
  \<open>send\<close>: \<open>Inl e\<close> is an exception leaving \<open>send\<close> towards its caller, \<open>Inr\<close> a normal
  return with the writer and the flush started, if any.
\<close>

definition send ::
  "(jsstring \<Rightarrow> jsval option) \<Rightarrow> jsval \<Rightarrow> writer \<Rightarrow> int
     \<Rightarrow> (thrown + writer \<times> flush_task option) option" where
  "send parse data w now =
     (case sendTry parse data w now of
        None \<Rightarrow> None
      | Some (None, w', task) \<Rightarrow> Some (Inr (w', task))
      | Some (Some error, w', task) \<Rightarrow>
          (case readMessage error of
             Some e \<Rightarrow> Some (Inl e)
           | None \<Rightarrow> Some (Inr (w', task))))"

subsection \<open>The rest of \<open>flush\<close>: delivery\<close>








text \<open>
  The events of the writer, each one run of JavaScript to completion: a call of \<open>send\<close>
  with its payload, at a time \<open>now\<close>; the flush timer firing; a call of \<open>complete\<close>; the
  send of a suspended run resolving, or rejecting with what the client's last attempt
  caught; the end of a pause.
\<close>

datatype writer_event =
    WsSend jsval int
  | TimerFires int
  | Complete int
  | SendResolves nat
  | SendRejects nat thrown
  | PauseEnds nat









definition sendsOf :: "(jsval \<times> int) list \<Rightarrow> writer_event list" where
  "sendsOf calls = map (\<lambda>c. WsSend (fst c) (snd c)) calls"












section \<open>The process runner: \<open>server/claude-cli.js\<close>\<close>

subsection \<open>Values\<close>

text \<open>
  A value that is a string, or \<open>undefined\<close>/\<open>null\<close> (\<open>None\<close>): \<open>options.sessionId\<close>,
  \<open>options.model\<close>, the \<open>session_id\<close> of an init record. Session ids are strings by the
  engine's contract. Such a value is truthy when it is a non-empty string; \<open>a || b\<close>
  gives \<open>a\<close> when \<open>a\<close> is truthy and \<open>b\<close> otherwise.
\<close>

definition truthyStr :: "jsstring option \<Rightarrow> bool" where
  "truthyStr v = (case v of None \<Rightarrow> False | Some s \<Rightarrow> s \<noteq> [])"

text \<open>\<open>a || b\<close> with a string \<open>b\<close>: the result is a string.\<close>

definition orElse :: "jsstring option \<Rightarrow> jsstring \<Rightarrow> jsstring" where
  "orElse a b = (case a of None \<Rightarrow> b | Some s \<Rightarrow> if s \<noteq> [] then s else b)"

text \<open>\<open>n.toString()\<close> for a non-negative integer, and \<open>`${code}`\<close> for an exit code.\<close>

fun showNat :: "nat \<Rightarrow> jsstring" where
  "showNat n = (if n < 10 then [of_nat (48 + n)] else showNat (n div 10) @ [of_nat (48 + n mod 10)])"

declare showNat.simps [simp del]

definition showInt :: "int \<Rightarrow> jsstring" where
  "showInt i = (if i < 0 then ascii ''-'' @ showNat (nat (- i)) else showNat (nat i))"

definition showCode :: "int option \<Rightarrow> jsstring" where
  "showCode code = (case code of None \<Rightarrow> ascii ''null'' | Some c \<Rightarrow> showInt c)"

text \<open>\<open>xs.join(',')\<close> on an array of strings.\<close>

fun joinComma :: "jsstring list \<Rightarrow> jsstring" where
  "joinComma [] = []"
| "joinComma [x] = x"
| "joinComma (x # y # ys) = x @ ascii '','' @ joinComma (y # ys)"

text \<open>
  The code units \<open>trim()\<close> strips: the white space and line terminators of ECMAScript.
  \<open>command && command.trim()\<close> is truthy when the command has a character outside them.
\<close>

definition isWhiteSpace :: "16 word \<Rightarrow> bool" where
  "isWhiteSpace c \<longleftrightarrow>
     c \<in> {0x09, 0x0A, 0x0B, 0x0C, 0x0D, 0x20, 0xA0, 0x1680, 0x2028, 0x2029, 0x202F, 0x205F,
          0x3000, 0xFEFF}
     \<or> (0x2000 \<le> c \<and> c \<le> 0x200A)"

definition hasPrompt :: "jsstring option \<Rightarrow> bool" where
  "hasPrompt command = (case command of None \<Rightarrow> False | Some s \<Rightarrow> \<exists>c \<in> set s. \<not> isWhiteSpace c)"

subsection \<open>The command line\<close>

record tools_settings =
  allowedTools :: "jsstring list"
  disallowedTools :: "jsstring list"
  settingsSkipPermissions :: bool

record options =
  sessionId :: "jsstring option"
  toolsSettings :: "tools_settings option"
  skipPermissions :: bool
  model :: "jsstring option"
  permissionMode :: "jsstring option"

definition defaultSettings :: tools_settings where
  "defaultSettings = \<lparr>allowedTools = [], disallowedTools = [], settingsSkipPermissions = False\<rparr>"

text \<open>The construction of \<open>args\<close> in \<open>queryClaude\<close>, one \<open>push\<close> after the other.\<close>

definition buildArgs :: "jsstring option \<Rightarrow> options \<Rightarrow> jsstring list" where
  "buildArgs command opts =
     (let settings = (case toolsSettings opts of None \<Rightarrow> defaultSettings | Some t \<Rightarrow> t)
      in [ascii ''-p'']
         @ (case sessionId opts of
              Some sid \<Rightarrow> if sid \<noteq> [] then [ascii ''--resume='' @ sid] else []
            | None \<Rightarrow> [])
         @ (if hasPrompt command
            then [ascii ''--output-format'', ascii ''stream-json'', ascii ''--verbose''] else [])
         @ (if truthyStr (permissionMode opts) \<and> permissionMode opts \<noteq> Some (ascii ''default'')
            then [ascii ''--permission-mode''] @ (case permissionMode opts of Some m \<Rightarrow> [m] | None \<Rightarrow> [])
            else [])
         @ (if skipPermissions opts \<or> settingsSkipPermissions settings
            then [ascii ''--dangerously-skip-permissions''] else [])
         @ (if length (allowedTools settings) > 0
            then [ascii ''--allowed-tools'', joinComma (allowedTools settings)] else [])
         @ (if length (disallowedTools settings) > 0
            then [ascii ''--disallowed-tools'', joinComma (disallowedTools settings)] else [])
         @ (case model opts of
              Some m \<Rightarrow> if m \<noteq> [] then [ascii ''--model'', m] else []
            | None \<Rightarrow> [])
         @ (if hasPrompt command then (case command of Some c \<Rightarrow> [c] | None \<Rightarrow> []) else []))"

subsection \<open>The registry \<open>activeClaudeProcesses\<close>\<close>

text \<open>
  A handle stands for one spawned child process. The registry is a JavaScript \<open>Map\<close> from
  session key to handle, which keeps its entries in insertion order
  (\<open>getActiveClaudeSessions\<close> lists the keys in that order): an association list.
  \<open>set\<close> on a key already there replaces the value in place, \<open>delete\<close> removes the entry.
\<close>

type_synonym handle = nat

type_synonym registry = "(jsstring \<times> handle) list"

fun mapSet :: "registry \<Rightarrow> jsstring \<Rightarrow> handle \<Rightarrow> registry" where
  "mapSet [] k v = [(k, v)]"
| "mapSet ((k', v') # m) k v = (if k' = k then (k, v) # m else (k', v') # mapSet m k v)"

definition mapDelete :: "registry \<Rightarrow> jsstring \<Rightarrow> registry" where
  "mapDelete m k = filter (\<lambda>e. fst e \<noteq> k) m"

definition mapGet :: "registry \<Rightarrow> jsstring \<Rightarrow> handle option" where
  "mapGet m k = map_of m k"

definition isClaudeSessionActive :: "registry \<Rightarrow> jsstring \<Rightarrow> bool" where
  "isClaudeSessionActive m k = (k \<in> set (map fst m))"

definition getActiveClaudeSessions :: "registry \<Rightarrow> jsstring list" where
  "getActiveClaudeSessions m = map fst m"

text \<open>The handles registered under a key.\<close>

definition handlesUnder :: "registry \<Rightarrow> jsstring \<Rightarrow> handle list" where
  "handlesUnder m k = map snd (filter (\<lambda>e. fst e = k) m)"

subsection \<open>One invocation of \<open>queryClaude\<close>\<close>

text \<open>
  A line of stdout after \<open>JSON.parse\<close>: a record, of which the handler reads \<open>type\<close>,
  \<open>subtype\<close> and \<open>session_id\<close>, or a line on which \<open>JSON.parse\<close> (or reading \<open>type\<close>)
  throws and that the \<open>catch\<close> forwards as it is.
\<close>

record response =
  rtype :: "jsstring option"
  subtype :: "jsstring option"
  session_id :: "jsstring option"

datatype stdout_line = Parsed response | NotJson jsstring

text \<open>
  What \<open>queryClaude\<close> passes to \<open>ws.send\<close>, before \<open>JSON.stringify\<close>. The writer \<open>ws\<close>
  records what it is sent and the id given to \<open>setSessionId\<close>; its methods return normally.
\<close>

datatype ws_message =
    SessionCreated jsstring
  | ClaudeResponse response
  | ClaudeOutput jsstring
  | ClaudeError jsstring
  | ClaudeComplete jsstring "int option" bool

datatype outcome = Resolved | Rejected jsstring

text \<open>
  The local variables of one call of \<open>queryClaude\<close> and the state of its promise
  (\<open>settled = None\<close> while pending). \<open>closed\<close> is set by the \<open>close\<close> event, which Node emits
  once, after the stdio streams of the child have ended; \<open>closing\<close> holds the exit code
  while the \<open>async\<close> close handler waits for its cleanup of the log directory.
\<close>

record invocation =
  inputSessionId :: "jsstring option"
  newSessionFlag :: bool
  args :: "jsstring list"
  capturedSessionId :: "jsstring option"
  sessionCreatedSent :: bool
  processKey :: jsstring
  wsSessionId :: "jsstring option"
  wsSent :: "ws_message list"
  closed :: bool
  closing :: "int option option"
  settled :: "outcome option"

definition wsSend :: "invocation \<Rightarrow> ws_message \<Rightarrow> invocation" where
  "wsSend call m = call\<lparr>wsSent := wsSent call @ [m]\<rparr>"

text \<open>\<open>resolve()\<close> and \<open>reject(e)\<close>: only the first call settles the promise.\<close>

definition settle :: "invocation \<Rightarrow> outcome \<Rightarrow> invocation" where
  "settle call out = (case settled call of None \<Rightarrow> call\<lparr>settled := Some out\<rparr> | Some _ \<Rightarrow> call)"

text \<open>
  From the entry of \<open>queryClaude\<close> to the registration of the spawned process; \<open>now\<close> is
  \<open>Date.now()\<close>. \<open>isNewSession\<close> (\<open>!sessionId && !!command\<close>) is fixed from here on.
\<close>

definition spawnInvocation :: "jsstring option \<Rightarrow> options \<Rightarrow> nat \<Rightarrow> invocation" where
  "spawnInvocation command opts now =
     \<lparr>inputSessionId = sessionId opts,
      newSessionFlag = (\<not> truthyStr (sessionId opts) \<and> truthyStr command),
      args = buildArgs command opts,
      capturedSessionId = sessionId opts,
      sessionCreatedSent = False,
      processKey = orElse (sessionId opts) (showNat now),
      wsSessionId = None,
      wsSent = [],
      closed = False,
      closing = None,
      settled = None\<rparr>"

text \<open>The body of the \<open>for (const line of lines)\<close> loop of the stdout handler.\<close>

definition onStdoutLine ::
  "handle \<Rightarrow> stdout_line \<Rightarrow> registry \<times> invocation \<Rightarrow> registry \<times> invocation" where
  "onStdoutLine p line st =
     (case st of (reg, call) \<Rightarrow>
        (case line of
           NotJson raw \<Rightarrow> (reg, wsSend call (ClaudeOutput raw))
         | Parsed r \<Rightarrow>
             if rtype r = Some (ascii ''system'') then
               (if subtype r = Some (ascii ''init'') then
                  (case session_id r of
                     None \<Rightarrow> (reg, call)
                   | Some sid \<Rightarrow>
                       if sid \<noteq> [] \<and> \<not> truthyStr (capturedSessionId call) then
                         let call1 = call\<lparr>capturedSessionId := Some sid\<rparr>;
                             reg1 = (if processKey call \<noteq> sid
                                     then mapSet (mapDelete reg (processKey call)) sid p
                                     else reg);
                             call2 = call1\<lparr>wsSessionId := Some sid\<rparr>
                         in if \<not> truthyStr (inputSessionId call) \<and> \<not> sessionCreatedSent call
                            then (reg1, wsSend (call2\<lparr>sessionCreatedSent := True\<rparr>)
                                          (SessionCreated sid))
                            else (reg1, call2)
                       else (reg, call))
                else (reg, call))
             else (reg, wsSend call (ClaudeResponse r))))"

text \<open>\<open>capturedSessionId || sessionId || processKey\<close>\<close>

definition finalSessionId :: "invocation \<Rightarrow> jsstring" where
  "finalSessionId call =
     orElse (capturedSessionId call) (orElse (inputSessionId call) (processKey call))"

text \<open>
  The \<open>close\<close> handler takes the exit code only; the signal that Node passes as second
  argument is not among its parameters. It runs in two parts: up to its first \<open>await\<close>
  (\<open>onClose\<close>), and from the end of the cleanup on (\<open>onCloseDone\<close>).
\<close>

definition onClose ::
  "int option \<Rightarrow> jsstring option \<Rightarrow> registry \<times> invocation \<Rightarrow> registry \<times> invocation" where
  "onClose code signal st =
     (case st of (reg, call) \<Rightarrow>
        (mapDelete reg (finalSessionId call), call\<lparr>closed := True, closing := Some code\<rparr>))"

definition closeOutcome :: "int option \<Rightarrow> outcome" where
  "closeOutcome code =
     (if code = Some 0 then Resolved
      else Rejected (ascii ''Claude CLI exited with code '' @ showCode code))"

definition onCloseDone :: "int option \<Rightarrow> invocation \<Rightarrow> invocation" where
  "onCloseDone code call =
     settle (wsSend (call\<lparr>closing := None\<rparr>)
               (ClaudeComplete (finalSessionId call) code (newSessionFlag call)))
       (closeOutcome code)"

text \<open>The \<open>error\<close> handler; \<open>message\<close> is \<open>error.message\<close>.\<close>

definition onError :: "jsstring \<Rightarrow> registry \<times> invocation \<Rightarrow> registry \<times> invocation" where
  "onError message st =
     (case st of (reg, call) \<Rightarrow>
        (mapDelete reg (finalSessionId call),
         settle (wsSend call (ClaudeError message)) (Rejected message)))"

text \<open>
  \<open>abortClaudeSession\<close>: the new registry and the return value. The \<open>SIGTERM\<close> it sends shows
  later, as the \<open>close\<close> event of the process with a \<open>null\<close> code and the signal's name.
\<close>

definition abortClaudeSession :: "registry \<Rightarrow> jsstring \<Rightarrow> registry \<times> bool" where
  "abortClaudeSession reg sid =
     (case mapGet reg sid of
        Some process \<Rightarrow> (mapDelete reg sid, True)
      | None \<Rightarrow> (reg, False))"

subsection \<open>The module as a whole\<close>

text \<open>
  The module state: the registry, and every invocation started so far, by the handle of
  its process. JavaScript runs each event handler to completion before the next one
  starts, so an \<open>event\<close> is one such run: the synchronous part of a \<open>queryClaude\<close> call that
  spawns and registers a process, a \<open>data\<close> event on stdout with its lines or on stderr,
  the \<open>close\<close> and \<open>error\<close> events of a process, the end of the cleanup in the close
  handler, and a call of \<open>abortClaudeSession\<close>.
\<close>

record system =
  registryOf :: registry
  invocations :: "handle \<Rightarrow> invocation option"

datatype event =
    Spawn handle "jsstring option" options nat
  | StdoutData handle "stdout_line list"
  | StderrData handle jsstring
  | Close handle "int option" "jsstring option"
  | CloseDone handle
  | ProcessError handle jsstring
  | Abort jsstring

definition initialSystem :: system where
  "initialSystem = \<lparr>registryOf = [], invocations = (\<lambda>p. None)\<rparr>"

text \<open>
  When an event can happen: a spawn yields a handle not seen before; stdout and stderr
  deliver data only until the \<open>close\<close> event, which comes once; the close handler resumes
  once after its cleanup.
\<close>

fun enabled :: "event \<Rightarrow> system \<Rightarrow> bool" where
  "enabled (Spawn p command opts now) s = (invocations s p = None)"
| "enabled (StdoutData p lines) s =
     (case invocations s p of None \<Rightarrow> False | Some call \<Rightarrow> \<not> closed call)"
| "enabled (StderrData p data) s =
     (case invocations s p of None \<Rightarrow> False | Some call \<Rightarrow> \<not> closed call)"
| "enabled (Close p code signal) s =
     (case invocations s p of None \<Rightarrow> False | Some call \<Rightarrow> \<not> closed call)"
| "enabled (CloseDone p) s =
     (case invocations s p of None \<Rightarrow> False | Some call \<Rightarrow> closing call \<noteq> None)"
| "enabled (ProcessError p message) s =
     (case invocations s p of None \<Rightarrow> False | Some call \<Rightarrow> True)"
| "enabled (Abort sid) s = True"

definition withCall ::
  "system \<Rightarrow> handle \<Rightarrow> (registry \<times> invocation \<Rightarrow> registry \<times> invocation) \<Rightarrow> system" where
  "withCall s p handler =
     (case invocations s p of
        None \<Rightarrow> s
      | Some call \<Rightarrow>
          (case handler (registryOf s, call) of
             (reg', call') \<Rightarrow> \<lparr>registryOf = reg', invocations = (invocations s)(p := Some call')\<rparr>))"

fun fire :: "event \<Rightarrow> system \<Rightarrow> system" where
  "fire (Spawn p command opts now) s =
     (let call = spawnInvocation command opts now
      in \<lparr>registryOf = mapSet (registryOf s) (processKey call) p,
          invocations = (invocations s)(p := Some call)\<rparr>)"
| "fire (StdoutData p lines) s = withCall s p (\<lambda>st. foldl (\<lambda>st line. onStdoutLine p line st) st lines)"
| "fire (StderrData p data) s = withCall s p (\<lambda>(reg, call). (reg, wsSend call (ClaudeError data)))"
| "fire (Close p code signal) s = withCall s p (onClose code signal)"
| "fire (CloseDone p) s =
     withCall s p (\<lambda>(reg, call).
       (case closing call of None \<Rightarrow> (reg, call) | Some code \<Rightarrow> (reg, onCloseDone code call)))"
| "fire (ProcessError p message) s = withCall s p (onError message)"
| "fire (Abort sid) s = s\<lparr>registryOf := fst (abortClaudeSession (registryOf s) sid)\<rparr>"

inductive reachable :: "system \<Rightarrow> bool" where
  start: "reachable initialSystem"
| step: "reachable s \<Longrightarrow> enabled e s \<Longrightarrow> reachable (fire e s)"

text \<open>The \<open>session-created\<close> messages among those sent to \<open>ws\<close>.\<close>

fun isSessionCreated :: "ws_message \<Rightarrow> bool" where
  "isSessionCreated (SessionCreated sid) = True"
| "isSessionCreated m = False"

definition sessionCreatedEvents :: "invocation \<Rightarrow> ws_message list" where
  "sessionCreatedEvents call = filter isSessionCreated (wsSent call)"

text \<open>The keys under which the registry holds a given handle.\<close>

definition keysOf :: "registry \<Rightarrow> handle \<Rightarrow> jsstring list" where
  "keysOf reg p = map fst (filter (\<lambda>e. snd e = p) reg)"

subsection \<open>Runs of the module\<close>

definition run :: "event list \<Rightarrow> system \<Rightarrow> system" where
  "run evs s = foldl (\<lambda>s e. fire e s) s evs"

fun allEnabled :: "event list \<Rightarrow> system \<Rightarrow> bool" where
  "allEnabled [] s = True"
| "allEnabled (e # evs) s = (enabled e s \<and> allEnabled evs (fire e s))"

text \<open>
  The options that \<open>FeishuService.handleMessage\<close> (\<open>server/feishu-ws.js\<close>) passes to
  \<open>queryClaude\<close>: the stored session id, and \<open>skipPermissions: true\<close>.
\<close>

definition feishuOptions :: "jsstring option \<Rightarrow> options" where
  "feishuOptions sid =
     \<lparr>sessionId = sid, toolsSettings = None, skipPermissions = True, model = None,
      permissionMode = None\<rparr>"

text \<open>The record \<open>{"type":"system","subtype":"init","session_id":sid}\<close> of the engine.\<close>

definition initRecord :: "jsstring \<Rightarrow> stdout_line" where
  "initRecord sid =
     Parsed \<lparr>rtype = Some (ascii ''system''), subtype = Some (ascii ''init''), session_id = Some sid\<rparr>"

text \<open>
  A new session is started, the engine announces the session id \<open>abc\<close>, the session is
  aborted, and the process ends on the \<open>SIGTERM\<close>: Node reports the exit code \<open>null\<close> and
  the signal's name.
\<close>

definition abortedRun :: "event list" where
  "abortedRun =
     [Spawn 0 (Some (ascii ''hi'')) (feishuOptions None) 1000,
      StdoutData 0 [initRecord (ascii ''abc'')],
      Abort (ascii ''abc''),
      Close 0 None (Some (ascii ''SIGTERM'')),
      CloseDone 0]"

text \<open>
  A conversation invokes with no session id and the engine announces \<open>abc\<close> (and, later in
  the stream, repeats an init record); after that process has ended, the conversation
  invokes again with the id \<open>abc\<close>.
\<close>

definition resumedRun :: "event list" where
  "resumedRun =
     [Spawn 0 (Some (ascii ''hi'')) (feishuOptions None) 1000,
      StdoutData 0 [initRecord (ascii ''abc''), initRecord (ascii ''xyz'')],
      Close 0 (Some 0) None,
      CloseDone 0,
      Spawn 1 (Some (ascii ''more'')) (feishuOptions (Some (ascii ''abc''))) 2000,
      StdoutData 1 [initRecord (ascii ''abc'')]]"

text \<open>Two invocations are started on the one session id \<open>abc\<close>.\<close>

definition concurrentRun :: "event list" where
  "concurrentRun =
     [Spawn 0 (Some (ascii ''one'')) (feishuOptions (Some (ascii ''abc''))) 1000,
      Spawn 1 (Some (ascii ''two'')) (feishuOptions (Some (ascii ''abc''))) 1001]"

text \<open>A new session whose process has exited with code 1, the close handler still cleaning up.\<close>

definition failingRun :: "event list" where
  "failingRun =
     [Spawn 0 (Some (ascii ''hi'')) (feishuOptions None) 1000,
      StdoutData 0 [initRecord (ascii ''abc'')],
      Close 0 (Some 1) None]"

subsection \<open>Invariants\<close>

text \<open>
  What holds of every invocation at all times: a supplied session id is the captured
  one from the start; \<open>sessionCreatedSent\<close> tells whether an id was captured for a new
  session; the \<open>session-created\<close> messages sent so far are none for a resumed session and,
  for a new one, one message with the captured id once there is one; the close handler
  is waiting only after \<open>close\<close>; a supplied id is on the command line.
\<close>

definition createdAsExpected :: "invocation \<Rightarrow> bool" where
  "createdAsExpected call \<longleftrightarrow>
     sessionCreatedEvents call =
       (if truthyStr (inputSessionId call) then []
        else (case capturedSessionId call of
                Some sid \<Rightarrow> if sid \<noteq> [] then [SessionCreated sid] else []
              | None \<Rightarrow> []))"

definition callOk :: "invocation \<Rightarrow> bool" where
  "callOk call \<longleftrightarrow>
     (truthyStr (inputSessionId call) \<longrightarrow> capturedSessionId call = inputSessionId call)
     \<and> sessionCreatedSent call = (\<not> truthyStr (inputSessionId call) \<and> truthyStr (capturedSessionId call))
     \<and> createdAsExpected call
     \<and> (closing call \<noteq> None \<longrightarrow> closed call)
     \<and> (\<forall>sid. inputSessionId call = Some sid \<and> sid \<noteq> [] \<longrightarrow> ascii ''--resume='' @ sid \<in> set (args call))"

text \<open>
  A registry entry is in order when its handle belongs to an invocation whose process has
  not closed and whose \<open>finalSessionId\<close> is the entry's key.
\<close>

definition entryOk :: "(handle \<Rightarrow> invocation option) \<Rightarrow> jsstring \<times> handle \<Rightarrow> bool" where
  "entryOk invs e \<longleftrightarrow>
     (\<exists>call. invs (snd e) = Some call \<and> fst e = finalSessionId call \<and> \<not> closed call)"

definition systemOk :: "system \<Rightarrow> bool" where
  "systemOk s \<longleftrightarrow>
     distinct (map fst (registryOf s))
     \<and> (\<forall>e \<in> set (registryOf s). entryOk (invocations s) e)
     \<and> (\<forall>p call. invocations s p = Some call \<longrightarrow> callOk call)"

text \<open>What the handlers of one process need of the registry and of their invocation, and keep.\<close>

definition pairOk ::
  "(handle \<Rightarrow> invocation option) \<Rightarrow> handle \<Rightarrow> registry \<times> invocation \<Rightarrow> bool" where
  "pairOk invs p st \<longleftrightarrow>
     distinct (map fst (fst st)) \<and> callOk (snd st)
     \<and> (\<forall>e \<in> set (fst st). entryOk (invs(p := Some (snd st))) e)"

section \<open>The session manager: \<open>server/lib/feishu-session.js\<close>\<close>

subsection \<open>The persisted records\<close>

text \<open>
  A row of the table \<open>feishu_sessions\<close>, with the columns of the schema.
\<close>

record session =
  rowId :: nat
  conversation_id :: jsstring
  feishu_id :: jsstring
  session_type :: jsstring
  project_path :: jsstring
  claude_session_id :: "jsstring option"
  user_id :: nat
  last_activity :: int
  is_active :: bool

type_synonym store = "session list"

text \<open>
  The store \<open>feishuDb\<close> lives in \<open>server/database/db.js\<close>, which is not among the
  sources; its operations are taken from the spec, which lists get-by-conversation-key,
  create, update-process-session-id and update-last-activity, each atomic.
\<close>

text \<open>
  Modelled from the spec: \<open>feishuDb.getSession\<close> (\<open>db.js\<close> is missing), the
  get-by-conversation-key of the store; \<open>conversation_id\<close> is unique in the schema.
\<close>

definition getSession :: "store \<Rightarrow> jsstring \<Rightarrow> session option" where
  "getSession db conversationId = find (\<lambda>r. conversation_id r = conversationId) db"

text \<open>
  Modelled from the spec: \<open>feishuDb.updateSessionActivity\<close> (\<open>db.js\<close> is missing), the
  update-last-activity of the store.
\<close>

definition updateSessionActivity :: "store \<Rightarrow> nat \<Rightarrow> int \<Rightarrow> store" where
  "updateSessionActivity db sid now =
     map (\<lambda>r. if rowId r = sid then r\<lparr>last_activity := now\<rparr> else r) db"

text \<open>
  Modelled from the spec: \<open>feishuDb.updateClaudeSessionId\<close> (\<open>db.js\<close> is missing), the
  update-process-session-id of the store.
\<close>

definition updateClaudeSessionId :: "store \<Rightarrow> nat \<Rightarrow> jsstring option \<Rightarrow> store" where
  "updateClaudeSessionId db sid claudeSessionId =
     map (\<lambda>r. if rowId r = sid then r\<lparr>claude_session_id := claudeSessionId\<rparr> else r) db"

text \<open>
  Modelled from the spec: \<open>feishuDb.createSession\<close> (\<open>db.js\<close> is missing), the create of
  the store; it returns the new row, whose \<open>id\<close> the schema increments automatically.
\<close>

definition createSession ::
  "store \<Rightarrow> jsstring \<Rightarrow> jsstring \<Rightarrow> jsstring \<Rightarrow> jsstring \<Rightarrow> nat \<Rightarrow> jsstring option \<Rightarrow> int
     \<Rightarrow> store \<times> session" where
  "createSession db conversationId feishuId sessionType projectPath userId claudeSessionId now =
     (let row = \<lparr>rowId = Suc (fold max (map rowId db) 0), conversation_id = conversationId,
                  feishu_id = feishuId, session_type = sessionType, project_path = projectPath,
                  claude_session_id = claudeSessionId, user_id = userId, last_activity = now,
                  is_active = True\<rparr>
      in (db @ [row], row))"

text \<open>
  Modelled from the spec: \<open>initializeDatabase\<close> (\<open>db.js\<close> is missing). The schema it
  applies creates each table only if it does not exist, and the spec gives the store no
  operation that runs on initialization: the rows stay as they are.
\<close>

definition initializeDatabase :: "store \<Rightarrow> store" where
  "initializeDatabase db = db"

subsection \<open>The incoming event\<close>

text \<open>
  Of a Feishu event the manager reads \<open>event.message\<close> with its \<open>chat_type\<close> and \<open>chat_id\<close>,
  and \<open>event.sender?.sender_id?.open_id\<close>.
\<close>

record message =
  chat_type :: "jsstring option"
  chat_id :: "jsstring option"

record feishu_event =
  messageOf :: "message option"
  senderOpenId :: "jsstring option"

datatype manager_error =
    NoMessage
  | NoSenderId
  | NoChatId
  | UnknownChatType "jsstring option"
  | DirectoryFailure

definition getConversationId :: "feishu_event \<Rightarrow> manager_error + jsstring" where
  "getConversationId event =
     (case messageOf event of
        None \<Rightarrow> Inl NoMessage
      | Some message \<Rightarrow>
          if chat_type message = Some (ascii ''p2p'') then
            (case senderOpenId event of
               None \<Rightarrow> Inl NoSenderId
             | Some senderId \<Rightarrow> if senderId = [] then Inl NoSenderId else Inr (ascii ''user-'' @ senderId))
          else if chat_type message = Some (ascii ''group'') then
            (case chat_id message of
               None \<Rightarrow> Inl NoChatId
             | Some chatId \<Rightarrow> if chatId = [] then Inl NoChatId else Inr (ascii ''group-'' @ chatId))
          else Inl (UnknownChatType (chat_type message)))"

definition getFeishuId :: "feishu_event \<Rightarrow> manager_error + jsstring" where
  "getFeishuId event =
     (case messageOf event of
        None \<Rightarrow> Inl NoMessage
      | Some message \<Rightarrow>
          if chat_type message = Some (ascii ''p2p'') then
            (case senderOpenId event of
               None \<Rightarrow> Inl NoSenderId
             | Some senderId \<Rightarrow> if senderId = [] then Inl NoSenderId else Inr senderId)
          else if chat_type message = Some (ascii ''group'') then
            (case chat_id message of
               None \<Rightarrow> Inl NoChatId
             | Some chatId \<Rightarrow> if chatId = [] then Inl NoChatId else Inr chatId)
          else Inl (UnknownChatType (chat_type message)))"

definition getSessionType :: "feishu_event \<Rightarrow> manager_error + jsstring" where
  "getSessionType event =
     (case messageOf event of
        None \<Rightarrow> Inl NoMessage
      | Some message \<Rightarrow>
          if chat_type message = Some (ascii ''p2p'') then Inr (ascii ''private'')
          else if chat_type message = Some (ascii ''group'') then Inr (ascii ''group'')
          else Inl (UnknownChatType (chat_type message)))"

subsection \<open>\<open>getOrCreateSession\<close> and \<open>isSessionBusy\<close>\<close>

text \<open>
  The file system and the project catalogue are outside: \<open>absolutePath\<close> stands for
  \<open>path.resolve(path.join(baseDir, conversationId))\<close>, and \<open>directoryReady\<close> tells whether
  \<open>ensureDirectoryExists\<close> returns rather than throws. \<open>initGitRepository\<close> never rejects
  and a failure of \<open>addProjectManually\<close> is caught and logged.
\<close>

record manager =
  managerUserId :: nat
  absolutePath :: "jsstring \<Rightarrow> jsstring"

definition getOrCreateSession ::
  "manager \<Rightarrow> store \<Rightarrow> feishu_event \<Rightarrow> int \<Rightarrow> bool \<Rightarrow> manager_error + store \<times> session" where
  "getOrCreateSession m db event now directoryReady =
     (case getConversationId event of Inl e \<Rightarrow> Inl e | Inr conversationId \<Rightarrow>
      case getFeishuId event of Inl e \<Rightarrow> Inl e | Inr feishuId \<Rightarrow>
      case getSessionType event of Inl e \<Rightarrow> Inl e | Inr sessionType \<Rightarrow>
        (case getSession db conversationId of
           Some session \<Rightarrow> Inr (updateSessionActivity db (rowId session) now, session)
         | None \<Rightarrow>
             if \<not> directoryReady then Inl DirectoryFailure
             else Inr (createSession db conversationId feishuId sessionType
                         (absolutePath m conversationId) (managerUserId m) None now)))"

definition isSessionBusy :: "registry \<Rightarrow> session \<Rightarrow> bool" where
  "isSessionBusy reg session =
     (if \<not> truthyStr (claude_session_id session) then False
      else (case claude_session_id session of
              Some claudeSessionId \<Rightarrow> isClaudeSessionActive reg claudeSessionId
            | None \<Rightarrow> False))"

section \<open>The service: \<open>server/feishu-ws.js\<close>\<close>

text \<open>
  \<open>FeishuService.start\<close>. \<open>loadConfig\<close> initializes the database, takes the first user and
  the credentials, from the database or the environment; \<open>firstUser\<close> and \<open>credentials\<close>
  are what it finds. \<open>clientStarts\<close> tells whether \<open>client.start\<close> resolves. The registry
  of a process that has just started is empty.
\<close>

record service =
  isRunning :: bool
  serviceUserId :: "nat option"
  sessionManager :: "manager option"
  clientConnected :: bool

datatype service_error = NoUser | NoCredentials | ClientStartFailed

definition newService :: service where
  "newService = \<lparr>isRunning = False, serviceUserId = None, sessionManager = None,
                  clientConnected = False\<rparr>"

definition loadConfig ::
  "service \<Rightarrow> store \<Rightarrow> nat option \<Rightarrow> (jsstring \<times> jsstring) option
     \<Rightarrow> service_error \<times> service \<times> store + (jsstring \<times> jsstring) \<times> service \<times> store" where
  "loadConfig svc db firstUser credentials =
     (let db' = initializeDatabase db
      in case firstUser of
           None \<Rightarrow> Inl (NoUser, svc, db')
         | Some user \<Rightarrow>
             (let svc' = svc\<lparr>serviceUserId := Some user\<rparr>
              in case credentials of
                   None \<Rightarrow> Inl (NoCredentials, svc', db')
                 | Some config \<Rightarrow> Inr (config, svc', db')))"

definition start ::
  "service \<Rightarrow> store \<Rightarrow> (jsstring \<Rightarrow> jsstring) \<Rightarrow> nat option \<Rightarrow> (jsstring \<times> jsstring) option \<Rightarrow> bool
     \<Rightarrow> service_error \<times> service \<times> store + service \<times> store" where
  "start svc db resolvePath firstUser credentials clientStarts =
     (if isRunning svc then Inr (svc, db)
      else
        (case loadConfig svc db firstUser credentials of
           Inl err \<Rightarrow> Inl err
         | Inr (config, svc1, db1) \<Rightarrow>
             (case serviceUserId svc1 of
                None \<Rightarrow> Inl (NoUser, svc1, db1)
              | Some user \<Rightarrow>
                  (let svc2 = svc1\<lparr>sessionManager :=
                                Some \<lparr>managerUserId = user, absolutePath = resolvePath\<rparr>\<rparr>
                   in if clientStarts
                      then Inr (svc2\<lparr>clientConnected := True, isRunning := True\<rparr>, db1)
                      else Inl (ClientStartFailed, svc2, db1)))))"

text \<open>
  After a restart: the store of the previous run holds one conversation whose record
  still carries the session id \<open>abc\<close>; the registry of the new process is empty.
\<close>

definition staleRecord :: session where
  "staleRecord =
     \<lparr>rowId = 1, conversation_id = ascii ''user-ou_1'', feishu_id = ascii ''ou_1'',
      session_type = ascii ''private'', project_path = ascii ''/srv/feicc/user-ou_1'',
      claude_session_id = Some (ascii ''abc''), user_id = 1, last_activity = 100,
      is_active = True\<rparr>"

definition messageFromUser :: feishu_event where
  "messageFromUser =
     \<lparr>messageOf = Some \<lparr>chat_type = Some (ascii ''p2p''), chat_id = Some (ascii ''oc_1'')\<rparr>,
      senderOpenId = Some (ascii ''ou_1'')\<rparr>"

definition exampleManager :: manager where
  "exampleManager = \<lparr>managerUserId = 1, absolutePath = (\<lambda>c. ascii ''/srv/feicc/'' @ c)\<rparr>"

section \<open>Verified properties\<close>

subsection \<open>\<open>splitMessage\<close>\<close>

lemma lastIndexOf_upper: "lastIndexOf s c i \<le> int i"
  by (induction i) auto

lemma lastIndexOf_lower: "- 1 \<le> lastIndexOf s c i"
  by (induction i) auto

lemma splitIndexOf_pos: "1 \<le> maxLength \<Longrightarrow> 1 \<le> splitIndexOf maxLength remaining"
  using lastIndexOf_lower [of remaining newline maxLength]
    lastIndexOf_lower [of remaining space maxLength]
  by (auto simp: splitIndexOf_def Let_def above_80_percent_def)

lemma splitLoop_step:
  "length remaining > maxLength \<Longrightarrow>
   splitLoop maxLength remaining chunks =
     splitLoop maxLength (drop (splitIndexOf maxLength remaining) remaining)
       (chunks @ [take (splitIndexOf maxLength remaining) remaining])"
  by (subst splitLoop.simps) (auto simp: splitIndexOf_def Let_def)

lemma splitLoop_last:
  "length remaining \<le> maxLength \<Longrightarrow>
   splitLoop maxLength remaining chunks =
     (if remaining = [] then Some chunks else Some (chunks @ [remaining]))"
  by (subst splitLoop.simps) simp

lemma splitLoop_concat:
  "1 \<le> maxLength \<Longrightarrow>
   \<exists>cs. splitLoop maxLength remaining chunks = Some (chunks @ cs) \<and> concat cs = remaining"
proof (induction "length remaining" arbitrary: remaining chunks rule: less_induct)
  case less
  show ?case
  proof (cases "length remaining \<le> maxLength")
    case True
    then show ?thesis
      by (cases "remaining = []") (simp_all add: splitLoop_last)
  next
    case False
    define i where "i = splitIndexOf maxLength remaining"
    have ipos: "1 \<le> i"
      unfolding i_def using less.prems by (rule splitIndexOf_pos)
    from False have nonempty: "0 < length remaining" by (cases remaining) auto
    with ipos have shorter: "length (drop i remaining) < length remaining" by simp
    from less.hyps [OF shorter less.prems, of "chunks @ [take i remaining]"]
    obtain cs where cs:
      "splitLoop maxLength (drop i remaining) (chunks @ [take i remaining])
         = Some ((chunks @ [take i remaining]) @ cs)"
      "concat cs = drop i remaining"
      by blast
    from False have "splitLoop maxLength remaining chunks
        = splitLoop maxLength (drop i remaining) (chunks @ [take i remaining])"
      unfolding i_def by (simp add: splitLoop_step)
    with cs have "splitLoop maxLength remaining chunks = Some (chunks @ (take i remaining # cs))"
      by simp
    moreover from cs have "concat (take i remaining # cs) = remaining" by simp
    ultimately show ?thesis by blast
  qed
qed

lemma splitMessage_returns:
  "1 \<le> n \<Longrightarrow> \<exists>cs. splitMessage t n = Some cs \<and> concat cs = t"
  using splitLoop_concat [of n t "[]"]
  by (cases "length t \<le> n") (simp_all add: splitMessage_def)

text \<open>
  C5. For every text and every chunk bound \<open>n \<ge> 1\<close>, \<open>splitMessage(text, n)\<close> returns, and
  the concatenation of its chunks, in delivery order, is exactly the text: no character is
  dropped, duplicated or reordered.
\<close>

theorem splitMessage_roundtrip:
  assumes "1 \<le> n"
  shows "\<exists>chunks. splitMessage t n = Some chunks \<and> concat chunks = t"
  using assms splitLoop_concat [of n t "[]"]
  by (cases "length t \<le> n") (simp_all add: splitMessage_def)

theorem splitMessage_roundtrip_witness:
  "(1::nat) \<le> 3 \<and>
   (\<exists>chunks. splitMessage (ascii ''ab cdefg'') 3 = Some chunks
      \<and> concat chunks = ascii ''ab cdefg'')"
  using splitMessage_roundtrip [of 3 "ascii ''ab cdefg''"] by simp

subsection \<open>Where \<open>splitMessage\<close> splits\<close>

lemma lastIndexOf_found:
  "0 \<le> lastIndexOf s c i \<Longrightarrow>
   nat (lastIndexOf s c i) < length s \<and> s ! nat (lastIndexOf s c i) = c"
  by (induction i) (auto split: if_splits simp: nat_add_distrib)

lemma lastIndexOf_last:
  "p \<le> i \<Longrightarrow> p < length s \<Longrightarrow> s ! p = c \<Longrightarrow>
   (\<forall>j. p < j \<and> j \<le> i \<and> j < length s \<longrightarrow> s ! j \<noteq> c) \<Longrightarrow>
   lastIndexOf s c i = int p"
proof (induction i)
  case 0
  then show ?case by simp
next
  case (Suc i)
  show ?case
  proof (cases "p = Suc i")
    case True
    with Suc.prems show ?thesis by simp
  next
    case False
    with Suc.prems have "p \<le> i" by simp
    moreover from Suc.prems False have "\<not> (Suc i < length s \<and> s ! Suc i = c)" by auto
    moreover from Suc.prems have "\<forall>j. p < j \<and> j \<le> i \<and> j < length s \<longrightarrow> s ! j \<noteq> c" by auto
    ultimately show ?thesis using Suc.IH Suc.prems by auto
  qed
qed

text \<open>No boundary character in the trailing 20% of the bound: the split is at the bound.\<close>

lemma splitIndexOf_no_boundary:
  assumes "\<forall>j. 4 * maxLength < 5 * j \<and> j \<le> maxLength \<and> j < length remaining
             \<longrightarrow> remaining ! j \<noteq> newline \<and> remaining ! j \<noteq> space"
  shows "splitIndexOf maxLength remaining = maxLength"
proof -
  have "\<not> above_80_percent (lastIndexOf remaining c maxLength) maxLength"
    if c: "c = newline \<or> c = space" for c
  proof
    assume a: "above_80_percent (lastIndexOf remaining c maxLength) maxLength"
    define k where "k = nat (lastIndexOf remaining c maxLength)"
    from a have pos: "0 \<le> lastIndexOf remaining c maxLength"
      by (simp add: above_80_percent_def)
    then have kk: "int k = lastIndexOf remaining c maxLength" by (simp add: k_def)
    from lastIndexOf_found [OF pos] have f: "k < length remaining" "remaining ! k = c"
      by (simp_all add: k_def)
    from lastIndexOf_upper [of remaining c maxLength] kk have "k \<le> maxLength" by simp
    moreover from a kk have "4 * maxLength < 5 * k"
      by (simp add: above_80_percent_def)
    ultimately show False using assms f c by blast
  qed
  then show ?thesis by (simp add: splitIndexOf_def Let_def)
qed

text \<open>The last newline up to the bound lies in the trailing 20%: the split is right after it.\<close>

lemma splitIndexOf_after_newline:
  assumes "p \<le> maxLength" "p < length remaining" "remaining ! p = newline"
    and "\<forall>j. p < j \<and> j \<le> maxLength \<and> j < length remaining \<longrightarrow> remaining ! j \<noteq> newline"
    and "4 * maxLength < 5 * p"
  shows "splitIndexOf maxLength remaining = p + 1"
proof -
  from assms(1-4) have "lastIndexOf remaining newline maxLength = int p"
    by (intro lastIndexOf_last) simp_all
  with assms(5) show ?thesis
    by (simp add: splitIndexOf_def Let_def above_80_percent_def nat_add_distrib)
qed

lemma splitMessage_first_chunk:
  assumes "1 \<le> maxLength" "maxLength < length t"
  shows "\<exists>rest. splitMessage t maxLength = Some (take (splitIndexOf maxLength t) t # rest)"
proof -
  from splitLoop_concat [OF assms(1), of "drop (splitIndexOf maxLength t) t"
      "[take (splitIndexOf maxLength t) t]"]
  obtain cs where "splitLoop maxLength (drop (splitIndexOf maxLength t) t)
      [take (splitIndexOf maxLength t) t] = Some ([take (splitIndexOf maxLength t) t] @ cs)"
    by blast
  with assms(2) splitLoop_step [of maxLength t "[]"] show ?thesis
    by (simp add: splitMessage_def)
qed

text \<open>
  The two cases of a 12000-character text under the bound 5000: without a boundary
  character at the indices 4001 to 5000 the first chunk has 5000 characters, and with the
  last newline up to index 5000 at index 4200 it has 4201.
\<close>

lemma split_12000_no_boundary:
  assumes "length t = 12000"
    and "\<forall>j. 4000 < j \<and> j \<le> 5000 \<longrightarrow> t ! j \<noteq> newline \<and> t ! j \<noteq> space"
  shows "\<exists>rest. splitMessage t 5000 = Some (take 5000 t # rest)"
proof -
  have "splitIndexOf 5000 t = 5000"
    using assms(2) by (intro splitIndexOf_no_boundary) auto
  with splitMessage_first_chunk [of 5000 t] assms(1) show ?thesis by simp
qed

lemma split_12000_newline_at_4200:
  assumes "length t = 12000" and "t ! 4200 = newline"
    and "\<forall>j. 4200 < j \<and> j \<le> 5000 \<longrightarrow> t ! j \<noteq> newline"
  shows "\<exists>rest. splitMessage t 5000 = Some (take 4201 t # rest)"
proof -
  have "splitIndexOf 5000 t = 4200 + 1"
    using assms by (intro splitIndexOf_after_newline) auto
  with splitMessage_first_chunk [of 5000 t] assms(1) show ?thesis by simp
qed

subsection \<open>A boundary character right after the bound\<close>

lemma lastIndexOf_hit: "i < length s \<Longrightarrow> s ! i = c \<Longrightarrow> lastIndexOf s c i = int i"
  by (cases i) auto

lemma splitIndexOf_newline_at_bound:
  "maxLength < length remaining \<Longrightarrow> remaining ! maxLength = newline \<Longrightarrow> 1 \<le> maxLength \<Longrightarrow>
   splitIndexOf maxLength remaining = maxLength + 1"
  by (simp add: splitIndexOf_def lastIndexOf_hit above_80_percent_def nat_add_distrib)

text \<open>
  C7. \<open>splitMessage\<close> is to produce chunks no longer than the bound. The search
  \<open>remaining.lastIndexOf('\n', maxLength)\<close> starts at index \<open>maxLength\<close>, one past the last
  index a chunk of \<open>maxLength\<close> characters holds, so a newline (or space) found exactly there
  gives \<open>splitIndex = maxLength + 1\<close>. With the default bound of 5000, a text of 5000 letters
  \<open>a\<close>, a newline and a \<open>b\<close> is split into a first chunk of 5001 characters.
\<close>

theorem splitMessage_chunk_exceeds_bound:
  "splitMessage (replicate 5000 0x61 @ [newline] @ ascii ''b'') defaultMaxLength
     = Some [replicate 5000 0x61 @ [newline], ascii ''b'']
   \<and> length (replicate 5000 (0x61 :: 16 word) @ [newline]) > defaultMaxLength"
proof -
  let ?t = "replicate 5000 (0x61 :: 16 word) @ [newline] @ ascii ''b''"
  have len: "length ?t = 5002" by (simp add: ascii_def)
  have nl: "?t ! 5000 = newline" by (simp add: nth_append)
  have idx: "splitIndexOf 5000 ?t = 5001"
    using splitIndexOf_newline_at_bound [of 5000 ?t] len nl by simp
  have "splitLoop 5000 ?t [] = splitLoop 5000 (drop 5001 ?t) ([] @ [take 5001 ?t])"
    using splitLoop_step [of 5000 ?t "[]"] len idx by simp
  also have "drop 5001 ?t = ascii ''b''" by simp
  also have "take 5001 ?t = replicate 5000 0x61 @ [newline]" by simp
  also have "splitLoop 5000 (ascii ''b'') ([] @ [replicate 5000 0x61 @ [newline]])
      = Some [replicate 5000 0x61 @ [newline], ascii ''b'']"
    by (simp add: splitLoop_last ascii_def)
  finally show ?thesis
    by (simp add: splitMessage_def defaultMaxLength_def ascii_def)
qed

subsection \<open>\<open>send\<close> never throws\<close>

lemma getProp_throws: "getProp v n = Inl e \<Longrightarrow> e = TypeError"
  by (cases v) auto

lemma getPropOpt_throws: "getPropOpt v n = Inl e \<Longrightarrow> e = TypeError"
  by (cases v) auto

lemma iterate_throws: "iterate v = Inl e \<Longrightarrow> e = TypeError"
  by (cases v) auto

lemma toStr_throws:
  "toStr v = Inl e \<Longrightarrow> e = TypeError"
  "joinElems vs = Inl e \<Longrightarrow> e = TypeError"
  "elemStr v = Inl e \<Longrightarrow> e = TypeError"
  by (induction v and vs and v arbitrary: e and e and e rule: toStr_joinElems_elemStr.induct)
     (auto split: if_splits sum.splits)

lemma appendText_throws: "appendText w x = (Some e, w') \<Longrightarrow> e = TypeError"
  by (auto simp: appendText_def orThrow_def split: sum.splits dest: toStr_throws)

lemma appendBlocks_throws: "appendBlocks w bs = (Some e, w') \<Longrightarrow> e = TypeError"
proof (induction bs arbitrary: w)
  case Nil
  then show ?case by simp
next
  case (Cons b bs)
  then show ?case
    by (auto split: sum.splits if_splits prod.splits option.splits
        dest: getProp_throws appendText_throws)
qed

lemma handleSessionCreated_throws: "handleSessionCreated w m = (Some e, w') \<Longrightarrow> e = TypeError"
  by (auto simp: handleSessionCreated_def orThrow_def split: sum.splits dest: getProp_throws)

lemma handleClaudeOutput_throws: "handleClaudeOutput w d = (Some e, w') \<Longrightarrow> e = TypeError"
  by (auto simp: handleClaudeOutput_def split: if_splits dest: appendText_throws)

lemma handleError_throws: "handleError w x = (Some e, w') \<Longrightarrow> e = TypeError"
  by (auto simp: handleError_def orThrow_def split: sum.splits
      dest: toStr_throws appendText_throws)

lemma handleClaudeResponse_throws: "handleClaudeResponse w d = (Some e, w') \<Longrightarrow> e = TypeError"
  unfolding handleClaudeResponse_def orThrow_def
  by (auto split: sum.splits if_splits
      dest: getProp_throws getPropOpt_throws iterate_throws appendText_throws appendBlocks_throws)

lemma dispatch_throws: "dispatch w m = (Some e, w') \<Longrightarrow> e = TypeError"
  unfolding dispatch_def orThrow_def
  by (auto split: sum.splits if_splits
      dest: getProp_throws handleSessionCreated_throws handleClaudeResponse_throws
        handleClaudeOutput_throws handleError_throws)

lemma flushStart_returns: "\<exists>r. flushStart w now = Some r"
  using splitMessage_returns [of defaultMaxLength "buffer w"]
  by (auto simp: flushStart_def Let_def defaultMaxLength_def)

lemma flushIfNeeded_returns: "\<exists>r. flushIfNeeded w now = Some r"
  using flushStart_returns [of w now]
  by (auto simp: flushIfNeeded_def Let_def)

lemma parsePayload_throws: "parsePayload parse d = Inl e \<Longrightarrow> e = SyntaxError"
  by (auto simp: parsePayload_def split: jsval.splits option.splits)

lemma sendTry_throws:
  "sendTry parse d w now = Some (Some e, w', task) \<Longrightarrow> e = TypeError \<or> e = SyntaxError"
  unfolding sendTry_def
  by (auto split: option.splits sum.splits prod.splits dest: dispatch_throws parsePayload_throws)

lemma sendTry_returns: "\<exists>r. sendTry parse d w now = Some r"
proof (cases "parsePayload parse d")
  case (Inl e)
  then show ?thesis by (simp add: sendTry_def)
next
  case (Inr m)
  obtain t w' where dw: "dispatch w m = (t, w')" by (cases "dispatch w m") auto
  obtain r where fr: "flushIfNeeded w' now = Some r" using flushIfNeeded_returns by blast
  show ?thesis
    by (cases t; cases r) (simp_all add: sendTry_def Inr dw fr)
qed

text \<open>
  C10. For every payload, string or plain value, and every writer state, \<open>send\<close> returns
  normally: whatever is thrown while the payload is parsed and dispatched is an \<open>Error\<close>
  object, which the \<open>catch\<close> block logs without throwing again.
\<close>

theorem send_never_throws:
  "\<exists>w' task. send parse data w now = Some (Inr (w', task))"
proof -
  obtain r where r: "sendTry parse data w now = Some r"
    using sendTry_returns by blast
  obtain t w' task where rt: "r = (t, w', task)" by (cases r) auto
  show ?thesis
  proof (cases t)
    case None
    with r rt show ?thesis by (simp add: send_def)
  next
    case (Some e)
    with r rt have "e = TypeError \<or> e = SyntaxError" using sendTry_throws by blast
    then have "readMessage e = None" by auto
    with r rt Some show ?thesis by (simp add: send_def)
  qed
qed

subsection \<open>A failed delivery puts the captured text back\<close>






































subsection \<open>The registry and the invocations: invariants of every reachable state\<close>

lemma set_mapDelete: "set (mapDelete m k) = {e \<in> set m. fst e \<noteq> k}"
  by (auto simp: mapDelete_def)

lemma distinct_mapDelete: "distinct (map fst m) \<Longrightarrow> distinct (map fst (mapDelete m k))"
  by (simp add: mapDelete_def distinct_map_filter)

lemma set_mapSet: "set (mapSet m k v) \<subseteq> insert (k, v) (set m)"
  by (induction m) (auto split: if_splits)

lemma mapSet_mem: "(k, v) \<in> set (mapSet m k v)"
  by (induction m) auto

lemma keys_mapSet: "fst ` set (mapSet m k v) = insert k (fst ` set m)"
proof (induction m)
  case Nil
  then show ?case by simp
next
  case (Cons e m)
  then show ?case by (cases e) (auto split: if_splits)
qed

lemma distinct_mapSet: "distinct (map fst m) \<Longrightarrow> distinct (map fst (mapSet m k v))"
proof (induction m)
  case Nil
  then show ?case by simp
next
  case (Cons e m)
  obtain k' v' where e: "e = (k', v')" by (cases e) auto
  show ?case
  proof (cases "k' = k")
    case True
    with Cons.prems e show ?thesis by simp
  next
    case False
    from Cons.prems e have "k' \<notin> fst ` set m" by auto
    with False have "k' \<notin> fst ` set (mapSet m k v)" by (simp add: keys_mapSet)
    moreover from Cons have "distinct (map fst (mapSet m k v))" by simp
    ultimately show ?thesis using False e by simp
  qed
qed

lemma finalSessionId_captured:
  "capturedSessionId call = Some sid \<Longrightarrow> sid \<noteq> [] \<Longrightarrow> finalSessionId call = sid"
  by (simp add: finalSessionId_def orElse_def)

lemma finalSessionId_fresh:
  "\<not> truthyStr (capturedSessionId call) \<Longrightarrow> \<not> truthyStr (inputSessionId call) \<Longrightarrow>
   finalSessionId call = processKey call"
  by (auto simp: finalSessionId_def orElse_def truthyStr_def split: option.splits)

lemma resume_in_args:
  assumes "sessionId opts = Some sid" and "sid \<noteq> []"
  shows "ascii ''--resume='' @ sid \<in> set (buildArgs command opts)"
proof -
  have "ascii ''--resume='' @ sid
      \<in> set (case sessionId opts of
                Some sid \<Rightarrow> if sid \<noteq> [] then [ascii ''--resume='' @ sid] else []
              | None \<Rightarrow> [])"
    by (simp only: assms option.case if_True not_False_eq_True list.set insertI1 simp_thms)
  then show ?thesis
    unfolding buildArgs_def Let_def set_append by blast
qed

lemma callOk_spawn: "callOk (spawnInvocation command opts now)"
  unfolding callOk_def
  by (cases "sessionId opts")
     (simp_all add: spawnInvocation_def createdAsExpected_def sessionCreatedEvents_def
        truthyStr_def resume_in_args)

lemma finalSessionId_spawn:
  "finalSessionId (spawnInvocation command opts now) = processKey (spawnInvocation command opts now)"
  by (auto simp: finalSessionId_def orElse_def spawnInvocation_def split: option.splits)

lemma callOk_wsSend:
  "callOk call \<Longrightarrow> \<not> isSessionCreated m \<Longrightarrow> callOk (wsSend call m)"
  by (simp add: callOk_def wsSend_def createdAsExpected_def sessionCreatedEvents_def)

lemma finalSessionId_wsSend: "finalSessionId (wsSend call m) = finalSessionId call"
  by (simp add: finalSessionId_def wsSend_def)

lemma closed_wsSend: "closed (wsSend call m) = closed call"
  by (simp add: wsSend_def)

lemma callOk_settle: "callOk call \<Longrightarrow> callOk (settle call out)"
  by (cases "settled call")
     (simp_all add: callOk_def settle_def createdAsExpected_def sessionCreatedEvents_def)

lemma finalSessionId_settle: "finalSessionId (settle call out) = finalSessionId call"
  by (cases "settled call") (simp_all add: finalSessionId_def settle_def)

lemma closed_settle: "closed (settle call out) = closed call"
  by (cases "settled call") (simp_all add: settle_def)

lemma entryOk_other:
  "snd e \<noteq> p \<Longrightarrow> entryOk (invs(p := c)) e = entryOk invs e"
  by (simp add: entryOk_def)

lemma stdout_line_ok:
  assumes ok: "pairOk invs p (reg, call)" and live: "\<not> closed call"
  shows "pairOk invs p (onStdoutLine p line (reg, call))
         \<and> \<not> closed (snd (onStdoutLine p line (reg, call)))"
proof (cases line)
  case (NotJson raw)
  with ok live show ?thesis
    by (auto simp: onStdoutLine_def pairOk_def callOk_wsSend entryOk_def
        finalSessionId_wsSend closed_wsSend)
next
  case (Parsed r)
  show ?thesis
  proof (cases "rtype r = Some (ascii ''system'') \<and> subtype r = Some (ascii ''init'')
      \<and> (\<exists>sid. session_id r = Some sid \<and> sid \<noteq> []) \<and> \<not> truthyStr (capturedSessionId call)")
    case False
    with ok live Parsed show ?thesis
      by (auto simp: onStdoutLine_def pairOk_def callOk_wsSend entryOk_def
          finalSessionId_wsSend closed_wsSend split: option.splits)
  next
    case True
    then obtain sid where sid: "session_id r = Some sid" "sid \<noteq> []" by blast
    from True have nocap: "\<not> truthyStr (capturedSessionId call)" by simp
    from ok have cok: "callOk call" by (simp add: pairOk_def)
    with nocap have noin: "\<not> truthyStr (inputSessionId call)" by (auto simp: callOk_def)
    from cok nocap noin have notsent: "\<not> sessionCreatedSent call" by (simp add: callOk_def)
    from cok nocap noin have nocreated: "sessionCreatedEvents call = []"
      by (auto simp: callOk_def createdAsExpected_def truthyStr_def split: option.splits)
    define call' where
      "call' = wsSend (call\<lparr>capturedSessionId := Some sid, wsSessionId := Some sid,
                  sessionCreatedSent := True\<rparr>) (SessionCreated sid)"
    define reg' where
      "reg' = (if processKey call \<noteq> sid then mapSet (mapDelete reg (processKey call)) sid p else reg)"
    have res: "onStdoutLine p line (reg, call) = (reg', call')"
      using True sid nocap noin notsent Parsed
      by (simp add: onStdoutLine_def Let_def call'_def reg'_def)
    have fin': "finalSessionId call' = sid"
      using sid by (simp add: call'_def finalSessionId_def orElse_def wsSend_def)
    have fin: "finalSessionId call = processKey call"
      using nocap noin by (rule finalSessionId_fresh)
    have cok': "callOk call'"
      using cok noin sid nocreated
      by (simp add: callOk_def call'_def wsSend_def createdAsExpected_def
          sessionCreatedEvents_def truthyStr_def)
    have live': "\<not> closed call'" using live by (simp add: call'_def wsSend_def)
    have dist: "distinct (map fst reg')"
      using ok by (simp add: reg'_def pairOk_def distinct_mapSet distinct_mapDelete)
    have entries: "\<forall>e \<in> set reg'. entryOk (invs(p := Some call')) e"
    proof
      fix e assume e: "e \<in> set reg'"
      from ok have old: "\<forall>e \<in> set reg. entryOk (invs(p := Some call)) e"
        by (simp add: pairOk_def)
      show "entryOk (invs(p := Some call')) e"
      proof (cases "processKey call = sid")
        case True
        with e have er: "e \<in> set reg" by (simp add: reg'_def)
        with old have eo: "entryOk (invs(p := Some call)) e" by blast
        show ?thesis
        proof (cases "snd e = p")
          case True
          with eo have "fst e = finalSessionId call" by (simp add: entryOk_def)
          with fin \<open>processKey call = sid\<close> fin' True live' show ?thesis
            by (simp add: entryOk_def)
        next
          case False
          with eo show ?thesis by (simp add: entryOk_other)
        qed
      next
        case False
        with e have "e \<in> set (mapSet (mapDelete reg (processKey call)) sid p)"
          by (simp add: reg'_def)
        with set_mapSet have "e = (sid, p) \<or> e \<in> set (mapDelete reg (processKey call))"
          by blast
        then show ?thesis
        proof
          assume "e = (sid, p)"
          with fin' live' show ?thesis by (simp add: entryOk_def)
        next
          assume "e \<in> set (mapDelete reg (processKey call))"
          then have er: "e \<in> set reg" and key: "fst e \<noteq> processKey call"
            by (simp_all add: set_mapDelete)
          from er old have eo: "entryOk (invs(p := Some call)) e" by blast
          have "snd e \<noteq> p"
          proof
            assume "snd e = p"
            with eo have "fst e = finalSessionId call" by (simp add: entryOk_def)
            with fin key show False by simp
          qed
          with eo show ?thesis by (simp add: entryOk_other)
        qed
      qed
    qed
    from dist cok' entries live' res show ?thesis by (simp add: pairOk_def)
  qed
qed

lemma stdout_lines_ok:
  "pairOk invs p st \<Longrightarrow> \<not> closed (snd st) \<Longrightarrow>
   pairOk invs p (foldl (\<lambda>st line. onStdoutLine p line st) st lines)
   \<and> \<not> closed (snd (foldl (\<lambda>st line. onStdoutLine p line st) st lines))"
proof (induction lines arbitrary: st)
  case Nil
  then show ?case by simp
next
  case (Cons line lines)
  obtain reg call where st: "st = (reg, call)" by (cases st) auto
  from Cons.prems st stdout_line_ok [of invs p reg call line]
  have "pairOk invs p (onStdoutLine p line st)" "\<not> closed (snd (onStdoutLine p line st))"
    by simp_all
  from Cons.IH [OF this] show ?case by simp
qed

lemma systemOk_pair:
  "systemOk s \<Longrightarrow> invocations s p = Some call \<Longrightarrow> pairOk (invocations s) p (registryOf s, call)"
  by (auto simp: systemOk_def pairOk_def fun_upd_idem)

lemma pairOk_system:
  assumes s: "systemOk s" and p: "invocations s p = Some call"
    and ok: "pairOk (invocations s) p (reg', call')"
  shows "systemOk \<lparr>registryOf = reg', invocations = (invocations s)(p := Some call')\<rparr>"
  using s ok by (auto simp: systemOk_def pairOk_def)

lemma withCall_ok:
  assumes s: "systemOk s"
    and h: "\<And>call. invocations s p = Some call \<Longrightarrow>
              pairOk (invocations s) p (handler (registryOf s, call))"
  shows "systemOk (withCall s p handler)"
proof (cases "invocations s p")
  case None
  with s show ?thesis by (simp add: withCall_def)
next
  case (Some call)
  obtain reg' call' where r: "handler (registryOf s, call) = (reg', call')"
    by (cases "handler (registryOf s, call)") auto
  from h [OF Some] r have "pairOk (invocations s) p (reg', call')" by simp
  from pairOk_system [OF s Some this] Some r show ?thesis by (simp add: withCall_def)
qed

lemma entry_closed_gone:
  assumes "\<forall>e \<in> set reg. entryOk (invs(p := Some call)) e"
  shows "\<forall>e \<in> set (mapDelete reg (finalSessionId call)). snd e \<noteq> p"
proof
  fix e assume "e \<in> set (mapDelete reg (finalSessionId call))"
  then have er: "e \<in> set reg" and k: "fst e \<noteq> finalSessionId call"
    by (simp_all add: set_mapDelete)
  from assms er have "entryOk (invs(p := Some call)) e" by blast
  with k show "snd e \<noteq> p" by (auto simp: entryOk_def)
qed

lemma delete_final_ok:
  assumes ok: "pairOk invs p (reg, call)"
    and c': "callOk call'" and f: "finalSessionId call' = finalSessionId call"
  shows "pairOk invs p (mapDelete reg (finalSessionId call), call')"
proof -
  from ok have old: "\<forall>e \<in> set reg. entryOk (invs(p := Some call)) e" by (simp add: pairOk_def)
  have "\<forall>e \<in> set (mapDelete reg (finalSessionId call)). entryOk (invs(p := Some call')) e"
  proof
    fix e assume e: "e \<in> set (mapDelete reg (finalSessionId call))"
    with entry_closed_gone [OF old] have np: "snd e \<noteq> p" by blast
    from e have "e \<in> set reg" by (simp add: set_mapDelete)
    with old have "entryOk (invs(p := Some call)) e" by blast
    with np show "entryOk (invs(p := Some call')) e" by (simp add: entryOk_other)
  qed
  with ok c' show ?thesis by (simp add: pairOk_def distinct_mapDelete)
qed

lemma onClose_ok:
  assumes ok: "pairOk invs p (reg, call)"
  shows "pairOk invs p (onClose code signal (reg, call))"
proof -
  let ?call' = "call\<lparr>closed := True, closing := Some code\<rparr>"
  from ok have "callOk ?call'"
    by (simp add: pairOk_def callOk_def createdAsExpected_def sessionCreatedEvents_def)
  moreover have "finalSessionId ?call' = finalSessionId call" by (simp add: finalSessionId_def)
  ultimately show ?thesis using delete_final_ok [OF ok] by (simp add: onClose_def)
qed

lemma onError_ok:
  assumes ok: "pairOk invs p (reg, call)"
  shows "pairOk invs p (onError message (reg, call))"
proof -
  let ?call' = "settle (wsSend call (ClaudeError message)) (Rejected message)"
  from ok have "callOk ?call'" by (simp add: pairOk_def callOk_settle callOk_wsSend)
  moreover have "finalSessionId ?call' = finalSessionId call"
    by (simp add: finalSessionId_settle finalSessionId_wsSend)
  ultimately show ?thesis using delete_final_ok [OF ok] by (simp add: onError_def)
qed

lemma same_registry_ok:
  assumes ok: "pairOk invs p (reg, call)"
    and c': "callOk call'" and f: "finalSessionId call' = finalSessionId call"
    and cl: "closed call' = closed call"
  shows "pairOk invs p (reg, call')"
  using assms by (auto simp: pairOk_def entryOk_def)

lemma onCloseDone_ok:
  assumes ok: "pairOk invs p (reg, call)"
  shows "pairOk invs p (reg, onCloseDone code call)"
proof (rule same_registry_ok [OF ok])
  from ok have c: "callOk call" by (simp add: pairOk_def)
  then have "callOk (call\<lparr>closing := None\<rparr>)"
    by (simp add: callOk_def createdAsExpected_def sessionCreatedEvents_def)
  then show "callOk (onCloseDone code call)"
    by (simp add: onCloseDone_def callOk_settle callOk_wsSend)
  have "finalSessionId (onCloseDone code call) = finalSessionId (call\<lparr>closing := None\<rparr>)"
    by (simp add: onCloseDone_def finalSessionId_settle finalSessionId_wsSend)
  also have "\<dots> = finalSessionId call" by (simp add: finalSessionId_def)
  finally show "finalSessionId (onCloseDone code call) = finalSessionId call" .
  show "closed (onCloseDone code call) = closed call"
    by (simp add: onCloseDone_def closed_settle closed_wsSend)
qed

lemma stderr_ok:
  assumes ok: "pairOk invs p (reg, call)"
  shows "pairOk invs p (reg, wsSend call (ClaudeError data))"
  using ok
  by (intro same_registry_ok [OF ok])
     (simp_all add: pairOk_def callOk_wsSend finalSessionId_wsSend closed_wsSend)

lemma systemOk_initial: "systemOk initialSystem"
  by (simp add: systemOk_def initialSystem_def)

lemma spawn_ok:
  assumes s: "systemOk s" and fresh: "invocations s p = None"
  shows "systemOk (fire (Spawn p command opts now) s)"
proof -
  let ?call = "spawnInvocation command opts now"
  let ?reg = "mapSet (registryOf s) (processKey ?call) p"
  have d: "distinct (map fst ?reg)" using s by (simp add: systemOk_def distinct_mapSet)
  have e: "\<forall>e \<in> set ?reg. entryOk ((invocations s)(p := Some ?call)) e"
  proof
    fix e assume "e \<in> set ?reg"
    with set_mapSet have "e = (processKey ?call, p) \<or> e \<in> set (registryOf s)" by blast
    then show "entryOk ((invocations s)(p := Some ?call)) e"
    proof
      assume "e = (processKey ?call, p)"
      then show ?thesis
        by (simp add: entryOk_def finalSessionId_spawn) (simp add: spawnInvocation_def)
    next
      assume er: "e \<in> set (registryOf s)"
      with s have eo: "entryOk (invocations s) e" by (simp add: systemOk_def)
      with fresh have "snd e \<noteq> p" by (auto simp: entryOk_def)
      with eo show ?thesis by (simp add: entryOk_other)
    qed
  qed
  have c: "\<forall>q call. ((invocations s)(p := Some ?call)) q = Some call \<longrightarrow> callOk call"
    using s by (auto simp: systemOk_def callOk_spawn)
  from d e c show ?thesis by (simp add: systemOk_def Let_def)
qed

lemma abort_ok: "systemOk s \<Longrightarrow> systemOk (fire (Abort sid) s)"
  by (auto simp: systemOk_def abortClaudeSession_def distinct_mapDelete set_mapDelete
      split: option.splits)

lemma fire_ok:
  assumes s: "systemOk s" and en: "enabled e s"
  shows "systemOk (fire e s)"
proof (cases e)
  case (Spawn p command opts now)
  with s en show ?thesis using spawn_ok by simp
next
  case (StdoutData p lines)
  show ?thesis
    unfolding StdoutData fire.simps
  proof (rule withCall_ok [OF s])
    fix call assume c: "invocations s p = Some call"
    with en StdoutData have "\<not> closed call" by simp
    with stdout_lines_ok [OF systemOk_pair [OF s c]]
    show "pairOk (invocations s) p
            (foldl (\<lambda>st line. onStdoutLine p line st) (registryOf s, call) lines)"
      by simp
  qed
next
  case (StderrData p data)
  show ?thesis
    unfolding StderrData fire.simps
  proof (rule withCall_ok [OF s])
    fix call assume c: "invocations s p = Some call"
    from stderr_ok [OF systemOk_pair [OF s c]]
    show "pairOk (invocations s) p
            (case (registryOf s, call) of (reg, call) \<Rightarrow> (reg, wsSend call (ClaudeError data)))"
      by simp
  qed
next
  case (Close p code signal)
  show ?thesis
    unfolding Close fire.simps
    by (rule withCall_ok [OF s]) (rule onClose_ok [OF systemOk_pair [OF s]])
next
  case (CloseDone p)
  show ?thesis
    unfolding CloseDone fire.simps
  proof (rule withCall_ok [OF s])
    fix call assume c: "invocations s p = Some call"
    from systemOk_pair [OF s c] onCloseDone_ok [OF systemOk_pair [OF s c]]
    show "pairOk (invocations s) p
            (case (registryOf s, call) of
               (reg, call) \<Rightarrow>
                 (case closing call of None \<Rightarrow> (reg, call) | Some code \<Rightarrow> (reg, onCloseDone code call)))"
      by (cases "closing call") simp_all
  qed
next
  case (ProcessError p message)
  show ?thesis
    unfolding ProcessError fire.simps
    by (rule withCall_ok [OF s]) (rule onError_ok [OF systemOk_pair [OF s]])
next
  case (Abort sid)
  with s show ?thesis using abort_ok by simp
qed

lemma reachable_ok: "reachable s \<Longrightarrow> systemOk s"
  by (induction rule: reachable.induct) (simp_all add: systemOk_initial fire_ok)

lemma reachable_run: "reachable s \<Longrightarrow> allEnabled evs s \<Longrightarrow> reachable (run evs s)"
proof (induction evs arbitrary: s)
  case Nil
  then show ?case by (simp add: run_def)
next
  case (Cons e evs)
  from Cons.prems have "reachable (fire e s)" "allEnabled evs (fire e s)"
    by (simp_all add: reachable.step)
  from Cons.IH [OF this] show ?case by (simp add: run_def)
qed

lemma distinct_keys_one_handle:
  "distinct (map fst m) \<Longrightarrow> length (handlesUnder m k) \<le> 1"
proof (induction m)
  case Nil
  then show ?case by (simp add: handlesUnder_def)
next
  case (Cons e m)
  show ?case
  proof (cases "fst e = k")
    case True
    with Cons.prems have "k \<notin> fst ` set m" by auto
    then have "filter (\<lambda>e. fst e = k) m = []" by (auto simp: filter_empty_conv)
    with True show ?thesis by (simp add: handlesUnder_def)
  next
    case False
    with Cons show ?thesis by (simp add: handlesUnder_def)
  qed
qed

lemma keysOf_empty: "(\<forall>e \<in> set reg. snd e \<noteq> p) \<Longrightarrow> keysOf reg p = []"
  by (auto simp: keysOf_def filter_empty_conv)

lemma settled_settle: "\<exists>out'. settled (settle call out) = Some out'"
  by (cases "settled call") (simp_all add: settle_def)

lemma close_unregisters:
  assumes r: "reachable s" and c: "invocations s p = Some call"
  shows "keysOf (registryOf (fire (Close p code signal) s)) p = []
         \<and> \<not> isClaudeSessionActive (registryOf (fire (Close p code signal) s)) (finalSessionId call)"
proof -
  from r have ok: "systemOk s" by (rule reachable_ok)
  from ok c have "pairOk (invocations s) p (registryOf s, call)" by (rule systemOk_pair)
  then have entries: "\<forall>e \<in> set (registryOf s). entryOk ((invocations s)(p := Some call)) e"
    by (simp add: pairOk_def)
  from entry_closed_gone [OF entries]
  have "keysOf (mapDelete (registryOf s) (finalSessionId call)) p = []" by (rule keysOf_empty)
  then show ?thesis using c
    by (auto simp: withCall_def onClose_def isClaudeSessionActive_def set_mapDelete)
qed

lemmas run_simps =
  run_def initialSystem_def feishuOptions_def initRecord_def withCall_def spawnInvocation_def
  onStdoutLine_def onClose_def onCloseDone_def onError_def abortClaudeSession_def mapGet_def
  mapDelete_def settle_def wsSend_def closeOutcome_def showCode_def orElse_def truthyStr_def
  finalSessionId_def Let_def ascii_def showNat.simps

text \<open>
  The first init record with a session id, on an invocation that was given none, sends
  the one \<open>session-created\<close> message; an init record that comes after an id was captured
  changes nothing.
\<close>

lemma first_init_sends_created:
  assumes "\<not> truthyStr (inputSessionId call)" "\<not> truthyStr (capturedSessionId call)"
    and "\<not> sessionCreatedSent call" and "sid \<noteq> []"
  shows "wsSent (snd (onStdoutLine p (initRecord sid) (reg, call)))
           = wsSent call @ [SessionCreated sid]"
  using assms by (simp add: onStdoutLine_def initRecord_def Let_def wsSend_def)

lemma later_init_changes_nothing:
  assumes "truthyStr (capturedSessionId call)"
  shows "onStdoutLine p (initRecord sid) (reg, call) = (reg, call)"
  using assms by (simp add: onStdoutLine_def initRecord_def)

lemma reachable_concurrentRun: "reachable (run concurrentRun initialSystem)"
  by (rule reachable_run [OF reachable.start]) (simp add: concurrentRun_def run_simps)

lemma reachable_resumedRun: "reachable (run resumedRun initialSystem)"
  by (rule reachable_run [OF reachable.start]) (simp add: resumedRun_def run_simps)

lemma reachable_failingRun: "reachable (run failingRun initialSystem)"
  by (rule reachable_run [OF reachable.start]) (simp add: failingRun_def run_simps)

text \<open>
  C4. In every reachable state of the module, whatever the interleaving of invocations,
  init events, exits, errors and aborts, the registry holds at most one handle under
  each session key, and a handle it holds belongs to a process that has not closed.
\<close>

theorem registry_one_handle_per_key:
  assumes "reachable s"
  shows "length (handlesUnder (registryOf s) k) \<le> 1
         \<and> (\<forall>p. p \<in> set (handlesUnder (registryOf s) k) \<longrightarrow>
               (\<exists>call. invocations s p = Some call \<and> \<not> closed call))"
proof -
  from assms have ok: "systemOk s" by (rule reachable_ok)
  then have "distinct (map fst (registryOf s))" by (simp add: systemOk_def)
  then have "length (handlesUnder (registryOf s) k) \<le> 1"
    by (rule distinct_keys_one_handle)
  moreover have "\<forall>p. p \<in> set (handlesUnder (registryOf s) k) \<longrightarrow>
               (\<exists>call. invocations s p = Some call \<and> \<not> closed call)"
    using ok by (auto simp: systemOk_def handlesUnder_def entryOk_def)
  ultimately show ?thesis by blast
qed

theorem registry_one_handle_per_key_witness:
  "reachable (run concurrentRun initialSystem)
   \<and> handlesUnder (registryOf (run concurrentRun initialSystem)) (ascii ''abc'') = [1]
   \<and> length (handlesUnder (registryOf (run concurrentRun initialSystem)) (ascii ''abc'')) \<le> 1"
  using registry_one_handle_per_key [OF reachable_concurrentRun, of "ascii ''abc''"]
    reachable_concurrentRun
  by (simp add: concurrentRun_def run_simps handlesUnder_def)

text \<open>
  C8. In every reachable state and for every invocation: when the caller supplied no
  session id, the \<open>session-created\<close> messages sent so far are none as long as no init
  event has revealed a session id, and from then on exactly one, carrying the id captured
  from that first init event; when the caller supplied a session id, no
  \<open>session-created\<close> message is ever sent and the command line carries \<open>--resume=<id>\<close>.
\<close>

theorem session_created_once:
  assumes "reachable s" and "invocations s p = Some call"
  shows "(\<not> truthyStr (inputSessionId call) \<longrightarrow>
            sessionCreatedEvents call =
              (case capturedSessionId call of
                 Some sid \<Rightarrow> if sid \<noteq> [] then [SessionCreated sid] else []
               | None \<Rightarrow> []))
         \<and> (truthyStr (inputSessionId call) \<longrightarrow>
              sessionCreatedEvents call = []
              \<and> (\<exists>sid. inputSessionId call = Some sid \<and> ascii ''--resume='' @ sid \<in> set (args call)))"
proof -
  from assms have "callOk call" using reachable_ok by (auto simp: systemOk_def)
  then show ?thesis
    by (auto simp: callOk_def createdAsExpected_def truthyStr_def split: option.splits)
qed

theorem session_created_once_witness:
  "reachable (run resumedRun initialSystem)
   \<and> (\<exists>call. invocations (run resumedRun initialSystem) 0 = Some call
         \<and> \<not> truthyStr (inputSessionId call)
         \<and> sessionCreatedEvents call = [SessionCreated (ascii ''abc'')])
   \<and> (\<exists>call. invocations (run resumedRun initialSystem) 1 = Some call
         \<and> truthyStr (inputSessionId call)
         \<and> sessionCreatedEvents call = []
         \<and> ascii ''--resume=abc'' \<in> set (args call))"
proof -
  obtain c0 where c0: "invocations (run resumedRun initialSystem) 0 = Some c0"
    and in0: "inputSessionId c0 = None" and cap0: "capturedSessionId c0 = Some (ascii ''abc'')"
    by (simp add: resumedRun_def run_simps)
  obtain c1 where c1: "invocations (run resumedRun initialSystem) 1 = Some c1"
    and in1: "inputSessionId c1 = Some (ascii ''abc'')"
    by (simp add: resumedRun_def run_simps)
  from session_created_once [OF reachable_resumedRun c0] in0 cap0
  have "sessionCreatedEvents c0 = [SessionCreated (ascii ''abc'')]"
    by (simp add: truthyStr_def ascii_def)
  moreover from session_created_once [OF reachable_resumedRun c1] in1
  have "sessionCreatedEvents c1 = [] \<and> ascii ''--resume=abc'' \<in> set (args c1)"
    by (simp add: truthyStr_def ascii_def)
  ultimately show ?thesis
    using reachable_resumedRun c0 c1 in0 in1 by (simp add: truthyStr_def ascii_def)
qed

text \<open>
  C9. When the promise of an invocation settles, at the end of the close handler or in
  the error handler, the registry holds no entry for the process of that invocation,
  under any key.
\<close>

theorem settled_invocation_unregistered:
  assumes r: "reachable s" and en: "enabled e s"
    and e: "e = CloseDone p \<or> e = ProcessError p message"
  shows "keysOf (registryOf (fire e s)) p = []
         \<and> (\<exists>call out. invocations (fire e s) p = Some call \<and> settled call = Some out)"
proof -
  from r have ok: "systemOk s" by (rule reachable_ok)
  from e en obtain call where c: "invocations s p = Some call"
    by (auto split: option.splits)
  from ok c have pair: "pairOk (invocations s) p (registryOf s, call)" by (rule systemOk_pair)
  then have entries: "\<forall>e \<in> set (registryOf s). entryOk ((invocations s)(p := Some call)) e"
    by (simp add: pairOk_def)
  from e show ?thesis
  proof
    assume cd: "e = CloseDone p"
    with en c obtain code where code: "closing call = Some code" by auto
    with ok c have "closed call" by (auto simp: systemOk_def callOk_def)
    with entries have "\<forall>e \<in> set (registryOf s). snd e \<noteq> p" by (auto simp: entryOk_def)
    then have "keysOf (registryOf s) p = []" by (rule keysOf_empty)
    moreover obtain out where "settled (onCloseDone code call) = Some out"
      using settled_settle by (auto simp: onCloseDone_def)
    ultimately show ?thesis using cd c code by (simp add: withCall_def)
  next
    assume pe: "e = ProcessError p message"
    from entry_closed_gone [OF entries]
    have "keysOf (mapDelete (registryOf s) (finalSessionId call)) p = []" by (rule keysOf_empty)
    moreover obtain out where
      "settled (settle (wsSend call (ClaudeError message)) (Rejected message)) = Some out"
      using settled_settle by blast
    ultimately show ?thesis using pe c by (simp add: withCall_def onError_def)
  qed
qed

theorem settled_invocation_unregistered_witness:
  "reachable (run failingRun initialSystem)
   \<and> enabled (CloseDone 0) (run failingRun initialSystem)
   \<and> keysOf (registryOf (fire (CloseDone 0) (run failingRun initialSystem))) 0 = []
   \<and> (\<exists>call out. invocations (fire (CloseDone 0) (run failingRun initialSystem)) 0 = Some call
         \<and> settled call = Some out)"
proof -
  have en: "enabled (CloseDone 0) (run failingRun initialSystem)"
    by (simp add: failingRun_def run_simps)
  from settled_invocation_unregistered [OF reachable_failingRun en, of 0 "[]"]
    reachable_failingRun en
  show ?thesis by simp
qed

text \<open>
  C1. A signal-terminated exit is to be rejected with an error that names the signal,
  never as an exit with code \<open>null\<close>. The \<open>close\<close> handler has no parameter for the
  signal and puts the \<open>null\<close> code into its message: an aborted session is rejected with
  \<open>Claude CLI exited with code null\<close>.
\<close>

theorem abort_rejects_with_code_null:
  "allEnabled abortedRun initialSystem
   \<and> map_option settled (invocations (run abortedRun initialSystem) 0)
       = Some (Some (Rejected (ascii ''Claude CLI exited with code null'')))"
  by (simp add: abortedRun_def run_simps)

subsection \<open>Stale session ids after a restart\<close>

text \<open>
  C2. \<open>getOrCreateSession\<close> is to clear, in the returned record and in the store, a
  process-session id that the registry does not hold. On a record found in the store it
  only updates the last activity and returns the record as read: after a restart, with
  an empty registry, the stored id \<open>abc\<close> is still in the returned record and in the
  store (the record is not busy, though).
\<close>

theorem getOrCreateSession_keeps_stale_id:
  "getOrCreateSession exampleManager [staleRecord] messageFromUser 200 True
     = Inr ([staleRecord\<lparr>last_activity := 200\<rparr>], staleRecord)
   \<and> claude_session_id staleRecord = Some (ascii ''abc'')
   \<and> \<not> isClaudeSessionActive [] (ascii ''abc'')
   \<and> \<not> isSessionBusy [] staleRecord"
  by (simp add: getOrCreateSession_def getConversationId_def getFeishuId_def getSessionType_def
      getSession_def updateSessionActivity_def staleRecord_def messageFromUser_def
      exampleManager_def isClaudeSessionActive_def isSessionBusy_def truthyStr_def ascii_def)

text \<open>
  C3. At startup every persisted process-session id is to be cleared before messages are
  accepted. \<open>start\<close> loads the configuration, creates the session manager and starts the
  client; it does not write to the store: the record with the id \<open>abc\<close> is there, as it
  was, when the service is running.
\<close>

theorem start_keeps_stale_ids:
  "start newService [staleRecord] (absolutePath exampleManager) (Some 1)
       (Some (ascii ''cli_app'', ascii ''secret'')) True
     = Inr (\<lparr>isRunning = True, serviceUserId = Some 1, sessionManager = Some exampleManager,
             clientConnected = True\<rparr>, [staleRecord])
   \<and> claude_session_id staleRecord = Some (ascii ''abc'')"
  by (simp add: start_def loadConfig_def initializeDatabase_def newService_def
      exampleManager_def staleRecord_def Let_def)

end
